theory Spec2Isabelle
  imports Complex_Main
begin

section \<open>Python values\<close>

text \<open>
  The scrapers of \<^verbatim>\<open>web_scraper.py\<close> return Python dicts whose values are strings,
  integers, lists and nested dicts, and the JSON scraper stores whatever
  \<^verbatim>\<open>response.json()\<close> returned. One datatype holds all of them. A dict is an
  association list in insertion order (the order \<^verbatim>\<open>json.dump\<close> writes), a JSON
  number with a fraction is a rational.
\<close>

datatype pyval =
    PNone
  | PBool bool
  | PInt int
  | PFloat rat
  | PStr string
  | PList "pyval list"
  | PDict "(string \<times> pyval) list"

type_synonym pydict = "(string \<times> pyval) list"

text \<open>Exceptions: the class and the message. \<^verbatim>\<open>ConnectionError\<close>, \<^verbatim>\<open>Timeout\<close> and
  \<^verbatim>\<open>HTTPError\<close> are the subclasses of \<^verbatim>\<open>requests.RequestException\<close> that
  \<^verbatim>\<open>session.get\<close> and \<^verbatim>\<open>raise_for_status\<close> raise; the others are not.\<close>

datatype exn_class =
    ConnectionError
  | Timeout
  | HTTPError
  | JSONDecodeError
  | ValueError
  | TypeError
  | KeyError
  | OSError
  | ParserRejectedMarkup

type_synonym exn = "exn_class \<times> string"

fun is_RequestException :: "exn \<Rightarrow> bool" where
  "is_RequestException (c, m) = (c = ConnectionError \<or> c = Timeout \<or> c = HTTPError)"

fun is_JSONDecodeError :: "exn \<Rightarrow> bool" where
  "is_JSONDecodeError (c, m) = (c = JSONDecodeError)"

text \<open>\<^verbatim>\<open>d.get(k, default)\<close> and \<^verbatim>\<open>k in d\<close> on a dict.\<close>

definition dict_get :: "pydict \<Rightarrow> string \<Rightarrow> pyval \<Rightarrow> pyval" where
  "dict_get d k dflt = (case map_of d k of None \<Rightarrow> dflt | Some v \<Rightarrow> v)"

definition dict_has :: "string \<Rightarrow> pydict \<Rightarrow> bool" where
  "dict_has k d = (map_of d k \<noteq> None)"

text \<open>\<^verbatim>\<open>len(v)\<close>: defined on strings, lists and dicts, a \<^verbatim>\<open>TypeError\<close> otherwise.\<close>

fun py_len :: "pyval \<Rightarrow> exn + int" where
  "py_len (PStr s) = Inr (int (length s))"
| "py_len (PList xs) = Inr (int (length xs))"
| "py_len (PDict kvs) = Inr (int (length kvs))"
| "py_len v = Inl (TypeError, ''object has no len()'')"

section \<open>Strings\<close>

text \<open>\<^verbatim>\<open>str.strip()\<close> removes the whitespace characters at both ends. Strings are
  lists of 8-bit characters here, so the whitespace is the ASCII one (tab, LF, VT, FF,
  CR, FS, GS, RS, US, space).\<close>

definition isspace :: "char \<Rightarrow> bool" where
  "isspace c = (let n = of_char c :: nat in (9 \<le> n \<and> n \<le> 13) \<or> (28 \<le> n \<and> n \<le> 32))"

definition strip :: "string \<Rightarrow> string" where
  "strip s = rev (dropWhile isspace (rev (dropWhile isspace s)))"

fun join_sp :: "string list \<Rightarrow> string" where
  "join_sp [] = ''''"
| "join_sp [x] = x"
| "join_sp (x # y # ys) = x @ '' '' @ join_sp (y # ys)"

section \<open>The parsed document\<close>

text \<open>
  What \<^verbatim>\<open>BeautifulSoup(content, 'html.parser')\<close> returns: a tree of text nodes and
  elements. An element has its tag name, the tokens of its \<^verbatim>\<open>class\<close> attribute (the
  parser splits this attribute into a list; no attribute is the empty list), its other
  attributes, and its children in document order. The document itself is an element
  named \<^verbatim>\<open>[document]\<close>.
\<close>

datatype node =
    Text string
  | Element (tag: string) (classes: "string list") (attrs: "(string \<times> string) list")
      (children: "node list")

text \<open>All nodes below a node, in document order (the order of \<^verbatim>\<open>Tag.descendants\<close>).\<close>

fun descendants :: "node \<Rightarrow> node list" where
  "descendants (Text s) = []"
| "descendants (Element t cs as ch) = concat (map (\<lambda>n. n # descendants n) ch)"

text \<open>\<^verbatim>\<open>get_text()\<close>: the text nodes below a node, concatenated.\<close>

fun get_text :: "node \<Rightarrow> string" where
  "get_text (Text s) = s"
| "get_text (Element t cs as ch) = concat (map get_text ch)"

text \<open>
  The filters the scrapers pass to \<^verbatim>\<open>find\<close> and \<^verbatim>\<open>find_all\<close>: a list of tag
  names, optionally a class (\<^verbatim>\<open>class_='quote'\<close>) and optionally an attribute that must
  be present (\<^verbatim>\<open>href=True\<close>). A class filter matches when it equals one of the
  element's class tokens, or the tokens joined by single spaces (so
  \<^verbatim>\<open>class_='instock availability'\<close> matches exactly that attribute value).
\<close>

definition class_matches :: "string \<Rightarrow> string list \<Rightarrow> bool" where
  "class_matches c cs = (c \<in> set cs \<or> (cs \<noteq> [] \<and> c = join_sp cs))"

fun matches :: "string list \<Rightarrow> string option \<Rightarrow> string option \<Rightarrow> node \<Rightarrow> bool" where
  "matches names cls attr (Text s) = False"
| "matches names cls attr (Element t cs as ch) =
     (t \<in> set names
      \<and> (case cls of None \<Rightarrow> True | Some c \<Rightarrow> class_matches c cs)
      \<and> (case attr of None \<Rightarrow> True | Some a \<Rightarrow> map_of as a \<noteq> None))"

definition find_all :: "string list \<Rightarrow> string option \<Rightarrow> string option \<Rightarrow> node \<Rightarrow> node list" where
  "find_all names cls attr n = filter (matches names cls attr) (descendants n)"

definition find_bs :: "string list \<Rightarrow> string option \<Rightarrow> string option \<Rightarrow> node \<Rightarrow> node option" where
  "find_bs names cls attr n =
     (case find_all names cls attr n of [] \<Rightarrow> None | x # xs \<Rightarrow> Some x)"

text \<open>\<^verbatim>\<open>tag.get(name, default)\<close> on an attribute other than \<^verbatim>\<open>class\<close>.\<close>

definition attr_get :: "node \<Rightarrow> string \<Rightarrow> string \<Rightarrow> string" where
  "attr_get n a dflt =
     (case n of Text s \<Rightarrow> dflt
      | Element t cs as ch \<Rightarrow> (case map_of as a of None \<Rightarrow> dflt | Some v \<Rightarrow> v))"

text \<open>\<^verbatim>\<open>tag.get('class', [])\<close>.\<close>

definition class_get :: "node \<Rightarrow> string list" where
  "class_get n = (case n of Text s \<Rightarrow> [] | Element t cs as ch \<Rightarrow> cs)"

section \<open>The world and the state\<close>

text \<open>
  Everything outside the program is a parameter: the numbers \<^verbatim>\<open>random.random()\<close>
  returns (the i-th call), what the network answers to the i-th request
  (\<^verbatim>\<open>session.get(url, timeout=10)\<close> raises or returns a response), the two parsers,
  \<^verbatim>\<open>urljoin\<close>, and whether a file can be opened for writing.
\<close>

record response =
  status_code :: nat
  reason :: string
  content :: string

record world =
  random :: "nat \<Rightarrow> rat"
  http_get :: "nat \<Rightarrow> string \<Rightarrow> exn + response"
  html_parser :: "string \<Rightarrow> exn + node"
  json_loads :: "string \<Rightarrow> exn + pyval"
  urljoin :: "string \<Rightarrow> string \<Rightarrow> exn + string"
  open_w :: "string \<Rightarrow> exn + unit"

text \<open>A log line is its level and the parts of its f-string: literal text, an
  interpolated value or an interpolated exception.\<close>

datatype level = INFO | WARNING | ERROR

datatype frag = Lit string | Val pyval | Exc exn

datatype file_content = JsonFile pyval | CsvFile "pyval list list"

record state =
  log :: "(level \<times> frag list) list"
  requests :: "string list"
  sleeps :: "rat list"
  draws :: nat
  files :: "string \<Rightarrow> file_content option"

definition logger :: "level \<Rightarrow> frag list \<Rightarrow> state \<Rightarrow> state" where
  "logger lv msg st = st\<lparr>log := log st @ [(lv, msg)]\<rparr>"

text \<open>The scraper object: the session's User-Agent header, the delay range and the
  results of the last batch.\<close>

record scraper =
  user_agent :: string
  delay_range :: "rat \<times> rat"
  scraped_data :: "pydict list"

definition init :: "rat \<times> rat \<Rightarrow> scraper" where
  "init dr = \<lparr>user_agent = ''Mozilla/5.0 (Windows NT 10.0; Win64; x64) AppleWebKit/537.36 (KHTML, like Gecko) Chrome/91.0.4472.124 Safari/537.36'',
     delay_range = dr, scraped_data = []\<rparr>"

section \<open>Fetching\<close>

text \<open>
  \<^verbatim>\<open>_rate_limit\<close>: \<^verbatim>\<open>random.uniform(a, b)\<close> is \<^verbatim>\<open>a + (b - a) * random()\<close>;
  \<^verbatim>\<open>time.sleep\<close> raises \<^verbatim>\<open>ValueError\<close> on a negative delay. Floating-point rounding
  is left out: delays are rationals.
\<close>

definition uniform :: "world \<Rightarrow> rat \<times> rat \<Rightarrow> state \<Rightarrow> rat \<times> state" where
  "uniform w dr st =
     (fst dr + (snd dr - fst dr) * random w (draws st), st\<lparr>draws := Suc (draws st)\<rparr>)"

definition sleep :: "rat \<Rightarrow> state \<Rightarrow> (exn + unit) \<times> state" where
  "sleep d st =
     (if d < 0 then (Inl (ValueError, ''sleep length must be non-negative''), st)
      else (Inr (), st\<lparr>sleeps := sleeps st @ [d]\<rparr>))"

definition rate_limit :: "world \<Rightarrow> scraper \<Rightarrow> state \<Rightarrow> (exn + unit) \<times> state" where
  "rate_limit w self st = (case uniform w (delay_range self) st of (delay, st1) \<Rightarrow> sleep delay st1)"

definition session_get :: "world \<Rightarrow> string \<Rightarrow> state \<Rightarrow> (exn + response) \<times> state" where
  "session_get w url st =
     (http_get w (length (requests st)) url, st\<lparr>requests := requests st @ [url]\<rparr>)"

definition raise_for_status :: "response \<Rightarrow> exn + unit" where
  "raise_for_status r =
     (if 400 \<le> status_code r \<and> status_code r < 600 then Inl (HTTPError, reason r) else Inr ())"

text \<open>The body of the \<^verbatim>\<open>try\<close> of \<^verbatim>\<open>_get_page\<close>, and of \<^verbatim>\<open>scrape_json_api\<close> up to
  the response: every statement may raise, and the state it reached is kept.\<close>

definition fetch :: "world \<Rightarrow> scraper \<Rightarrow> string \<Rightarrow> state \<Rightarrow> (exn + response) \<times> state" where
  "fetch w self url st =
     (case rate_limit w self st of
        (Inl e, st1) \<Rightarrow> (Inl e, st1)
      | (Inr u, st1) \<Rightarrow>
          (case session_get w url st1 of
             (Inl e, st2) \<Rightarrow> (Inl e, st2)
           | (Inr resp, st2) \<Rightarrow>
               (case raise_for_status resp of
                  Inl e \<Rightarrow> (Inl e, st2)
                | Inr u \<Rightarrow> (Inr resp, st2))))"

text \<open>\<^verbatim>\<open>_get_page\<close>: a \<^verbatim>\<open>RequestException\<close> is logged and \<^verbatim>\<open>None\<close> returned; any
  other exception leaves the method.\<close>

definition get_page :: "world \<Rightarrow> scraper \<Rightarrow> string \<Rightarrow> state \<Rightarrow> (exn + node option) \<times> state" where
  "get_page w self url st =
     (case (case fetch w self url st of
              (Inl e, st1) \<Rightarrow> (Inl e, st1)
            | (Inr resp, st1) \<Rightarrow>
                (case html_parser w (content resp) of
                   Inl e \<Rightarrow> (Inl e, st1)
                 | Inr soup \<Rightarrow> (Inr (Some soup), st1))) of
        (Inl e, st2) \<Rightarrow>
          (if is_RequestException e
           then (Inr None, logger ERROR [Lit ''Error fetching '', Val (PStr url), Lit '': '', Exc e] st2)
           else (Inl e, st2))
      | (Inr r, st2) \<Rightarrow> (Inr r, st2))"

section \<open>The scrapers\<close>

text \<open>\<^verbatim>\<open>soup.find('title')\<close> and \<^verbatim>\<open>title.get_text().strip() if title else default\<close>.\<close>

definition title_text :: "node \<Rightarrow> string \<Rightarrow> string" where
  "title_text soup dflt =
     (case find_bs [''title''] None None soup of
        None \<Rightarrow> dflt
      | Some title \<Rightarrow> strip (get_text title))"

subsection \<open>\<^verbatim>\<open>scrape_news_site\<close>\<close>

text \<open>\<^verbatim>\<open>link['href']\<close> raises \<^verbatim>\<open>KeyError\<close> when the attribute is missing.\<close>

definition attr_index :: "node \<Rightarrow> string \<Rightarrow> exn + string" where
  "attr_index n a =
     (case n of Text s \<Rightarrow> Inl (KeyError, a)
      | Element t cs as ch \<Rightarrow> (case map_of as a of None \<Rightarrow> Inl (KeyError, a) | Some v \<Rightarrow> Inr v))"

text \<open>The loop over the anchors; \<^verbatim>\<open>urljoin\<close> may raise.\<close>

fun links_loop :: "world \<Rightarrow> string \<Rightarrow> node list \<Rightarrow> pyval list \<Rightarrow> exn + pyval list" where
  "links_loop w url [] links = Inr links"
| "links_loop w url (link # rest) links =
     (case attr_index link ''href'' of
        Inl e \<Rightarrow> Inl e
      | Inr href \<Rightarrow>
          (case urljoin w url href of
             Inl e \<Rightarrow> Inl e
           | Inr full_url \<Rightarrow>
               links_loop w url rest
                 (links @ [PDict [(''text'', PStr (strip (get_text link))), (''url'', PStr full_url)]])))"

definition headings_of :: "node \<Rightarrow> pyval list" where
  "headings_of soup =
     map (\<lambda>h. PStr (strip (get_text h))) (find_all [''h1'', ''h2'', ''h3''] None None soup)"

definition paragraphs_of :: "node \<Rightarrow> pyval list" where
  "paragraphs_of soup =
     map (\<lambda>p. PStr (strip (get_text p)))
       (filter (\<lambda>p. strip (get_text p) \<noteq> []) (find_all [''p''] None None soup))"

definition scrape_news_site :: "world \<Rightarrow> scraper \<Rightarrow> string \<Rightarrow> state \<Rightarrow> (exn + pydict) \<times> state" where
  "scrape_news_site w self url st =
     (case get_page w self url (logger INFO [Lit ''Scraping news site: '', Val (PStr url)] st) of
        (Inl e, st1) \<Rightarrow> (Inl e, st1)
      | (Inr None, st1) \<Rightarrow> (Inr [], st1)
      | (Inr (Some soup), st1) \<Rightarrow>
          (case links_loop w url (find_all [''a''] None (Some ''href'') soup) [] of
             Inl e \<Rightarrow> (Inl e, st1)
           | Inr links \<Rightarrow>
               (Inr [(''url'', PStr url),
                     (''title'', PStr (title_text soup ''No title found'')),
                     (''headings'', PList (headings_of soup)),
                     (''paragraphs'', PList (paragraphs_of soup)),
                     (''links'', PList (take 10 links)),
                     (''type'', PStr ''news_site'')], st1)))"

subsection \<open>\<^verbatim>\<open>scrape_quotes_site\<close>\<close>

text \<open>The loop over the \<^verbatim>\<open>div.quote\<close> containers, appending to \<^verbatim>\<open>quotes\<close>. A tag
  object is always true, so \<^verbatim>\<open>quote_text and author\<close> tests that both were found.\<close>

fun quotes_loop :: "node list \<Rightarrow> pyval list \<Rightarrow> pyval list" where
  "quotes_loop [] quotes = quotes"
| "quotes_loop (quote_div # rest) quotes =
     (case (find_bs [''span''] (Some ''text'') None quote_div,
            find_bs [''small''] (Some ''author'') None quote_div) of
        (Some quote_text, Some author) \<Rightarrow>
          quotes_loop rest
            (quotes @ [PDict [(''text'', PStr (strip (get_text quote_text))),
                              (''author'', PStr (strip (get_text author))),
                              (''tags'', PList (map (\<lambda>t. PStr (strip (get_text t)))
                                  (find_all [''a''] (Some ''tag'') None quote_div)))]])
      | _ \<Rightarrow> quotes_loop rest quotes)"

definition scrape_quotes_site :: "world \<Rightarrow> scraper \<Rightarrow> string \<Rightarrow> state \<Rightarrow> (exn + pydict) \<times> state" where
  "scrape_quotes_site w self url st =
     (case get_page w self url (logger INFO [Lit ''Scraping quotes site: '', Val (PStr url)] st) of
        (Inl e, st1) \<Rightarrow> (Inl e, st1)
      | (Inr None, st1) \<Rightarrow> (Inr [], st1)
      | (Inr (Some soup), st1) \<Rightarrow>
          (let quotes = quotes_loop (find_all [''div''] (Some ''quote'') None soup) [] in
           (Inr [(''url'', PStr url),
                 (''title'', PStr (title_text soup ''Quotes to Scrape'')),
                 (''quotes'', PList quotes),
                 (''total_quotes'', PInt (int (length quotes))),
                 (''type'', PStr ''quotes_site'')], st1)))"

subsection \<open>\<^verbatim>\<open>scrape_books_site\<close>\<close>

text \<open>The \<^verbatim>\<open>for cls in rating_classes\<close> loop with its \<^verbatim>\<open>break\<close>.\<close>

fun rating_loop :: "string list \<Rightarrow> string \<Rightarrow> string" where
  "rating_loop [] rating = rating"
| "rating_loop (cls # rest) rating =
     (if cls \<in> set [''One'', ''Two'', ''Three'', ''Four'', ''Five''] then cls
      else rating_loop rest rating)"

definition rating_of :: "node option \<Rightarrow> string" where
  "rating_of rating_elem =
     (case rating_elem of
        None \<Rightarrow> ''Unknown''
      | Some r \<Rightarrow> rating_loop (class_get r) ''Unknown'')"

definition availability_of :: "node option \<Rightarrow> string" where
  "availability_of availability_elem =
     (case availability_elem of
        None \<Rightarrow> ''Unknown''
      | Some a \<Rightarrow> strip (get_text a))"

definition title_elem_of :: "node \<Rightarrow> node option" where
  "title_elem_of book_article =
     (case find_bs [''h3''] None None book_article of
        None \<Rightarrow> None
      | Some h3 \<Rightarrow> find_bs [''a''] None None h3)"

fun books_loop :: "node list \<Rightarrow> pyval list \<Rightarrow> pyval list" where
  "books_loop [] books = books"
| "books_loop (book_article # rest) books =
     (case (title_elem_of book_article,
            find_bs [''p''] (Some ''price_color'') None book_article) of
        (Some title_elem, Some price_elem) \<Rightarrow>
          books_loop rest
            (books @ [PDict [(''title'', PStr (strip (attr_get title_elem ''title'' ''''))),
                             (''price'', PStr (strip (get_text price_elem))),
                             (''rating'', PStr (rating_of
                                 (find_bs [''p''] (Some ''star-rating'') None book_article))),
                             (''availability'', PStr (availability_of
                                 (find_bs [''p''] (Some ''instock availability'') None book_article)))]])
      | _ \<Rightarrow> books_loop rest books)"

definition scrape_books_site :: "world \<Rightarrow> scraper \<Rightarrow> string \<Rightarrow> state \<Rightarrow> (exn + pydict) \<times> state" where
  "scrape_books_site w self url st =
     (case get_page w self url (logger INFO [Lit ''Scraping books site: '', Val (PStr url)] st) of
        (Inl e, st1) \<Rightarrow> (Inl e, st1)
      | (Inr None, st1) \<Rightarrow> (Inr [], st1)
      | (Inr (Some soup), st1) \<Rightarrow>
          (let books = books_loop (find_all [''article''] (Some ''product_pod'') None soup) [] in
           (Inr [(''url'', PStr url),
                 (''title'', PStr (title_text soup ''Books to Scrape'')),
                 (''books'', PList books),
                 (''total_books'', PInt (int (length books))),
                 (''type'', PStr ''books_site'')], st1)))"

subsection \<open>\<^verbatim>\<open>scrape_json_api\<close>\<close>

text \<open>\<^verbatim>\<open>isinstance(data, list)\<close>, the slice \<^verbatim>\<open>data[:10]\<close> and the count.\<close>

fun limit10 :: "pyval \<Rightarrow> pyval" where
  "limit10 (PList xs) = PList (take 10 xs)"
| "limit10 v = v"

fun total_items_of :: "pyval \<Rightarrow> int" where
  "total_items_of (PList xs) = int (length xs)"
| "total_items_of v = 1"

definition scrape_json_api :: "world \<Rightarrow> scraper \<Rightarrow> string \<Rightarrow> state \<Rightarrow> (exn + pydict) \<times> state" where
  "scrape_json_api w self url st =
     (case (case fetch w self url (logger INFO [Lit ''Scraping JSON API: '', Val (PStr url)] st) of
              (Inl e, st1) \<Rightarrow> (Inl e, st1)
            | (Inr resp, st1) \<Rightarrow>
                (case json_loads w (content resp) of
                   Inl e \<Rightarrow> (Inl e, st1)
                 | Inr data0 \<Rightarrow>
                     (let data = limit10 data0 in
                      (Inr [(''url'', PStr url),
                            (''title'', PStr ''JSON API Data''),
                            (''api_data'', data),
                            (''total_items'', PInt (total_items_of data)),
                            (''type'', PStr ''json_api'')], st1)))) of
        (Inl e, st2) \<Rightarrow>
          (if is_RequestException e \<or> is_JSONDecodeError e
           then (Inr [], logger ERROR [Lit ''Error fetching JSON API '', Val (PStr url), Lit '': '', Exc e] st2)
           else (Inl e, st2))
      | (Inr d, st2) \<Rightarrow> (Inr d, st2))"

section \<open>The batch: \<^verbatim>\<open>run_all_scrapers\<close>\<close>

text \<open>The four bound methods of the list \<^verbatim>\<open>scrapers\<close>, each called with its default URL.\<close>

datatype scraper_method = Scrape_news_site | Scrape_quotes_site | Scrape_books_site | Scrape_json_api

definition scrapers :: "scraper_method list" where
  "scrapers = [Scrape_news_site, Scrape_quotes_site, Scrape_books_site, Scrape_json_api]"

fun default_url :: "scraper_method \<Rightarrow> string" where
  "default_url Scrape_news_site = ''https://httpbin.org/html''"
| "default_url Scrape_quotes_site = ''http://quotes.toscrape.com/''"
| "default_url Scrape_books_site = ''http://books.toscrape.com/''"
| "default_url Scrape_json_api = ''https://jsonplaceholder.typicode.com/posts''"

fun method_name :: "scraper_method \<Rightarrow> string" where
  "method_name Scrape_news_site = ''scrape_news_site''"
| "method_name Scrape_quotes_site = ''scrape_quotes_site''"
| "method_name Scrape_books_site = ''scrape_books_site''"
| "method_name Scrape_json_api = ''scrape_json_api''"

fun scrape_url :: "world \<Rightarrow> scraper \<Rightarrow> scraper_method \<Rightarrow> string \<Rightarrow> state \<Rightarrow> (exn + pydict) \<times> state" where
  "scrape_url w self Scrape_news_site url st = scrape_news_site w self url st"
| "scrape_url w self Scrape_quotes_site url st = scrape_quotes_site w self url st"
| "scrape_url w self Scrape_books_site url st = scrape_books_site w self url st"
| "scrape_url w self Scrape_json_api url st = scrape_json_api w self url st"

definition call_scraper :: "world \<Rightarrow> scraper \<Rightarrow> scraper_method \<Rightarrow> state \<Rightarrow> (exn + pydict) \<times> state" where
  "call_scraper w self m st = scrape_url w self m (default_url m) st"

text \<open>\<^verbatim>\<open>except Exception\<close>: every exception class of the model derives from
  \<^verbatim>\<open>Exception\<close>.\<close>

definition is_Exception :: "exn \<Rightarrow> bool" where
  "is_Exception e =
     (fst e \<in> set [ConnectionError, Timeout, HTTPError, JSONDecodeError, ValueError, TypeError,
        KeyError, OSError, ParserRejectedMarkup])"

text \<open>The \<^verbatim>\<open>for scraper in scrapers\<close> loop: its body (the \<^verbatim>\<open>try\<close> statement) and the
  iteration. An empty dict is false, so it is not appended; an exception the
  \<^verbatim>\<open>except\<close> clause does not match would leave the loop.\<close>

definition loop_body ::
  "world \<Rightarrow> scraper \<Rightarrow> scraper_method \<Rightarrow> pydict list \<Rightarrow> state \<Rightarrow> (exn + pydict list) \<times> state" where
  "loop_body w self m all_data st =
     (case call_scraper w self m st of
        (Inr data, st1) \<Rightarrow>
          (if data \<noteq> []
           then (Inr (all_data @ [data]),
                 logger INFO [Lit ''Successfully scraped '', Val (dict_get data ''type'' (PStr ''unknown'')),
                              Lit '' from '', Val (dict_get data ''url'' (PStr ''unknown''))] st1)
           else (Inr all_data, st1))
      | (Inl e, st1) \<Rightarrow>
          (if is_Exception e
           then (Inr all_data,
                 logger ERROR [Lit ''Error running scraper '', Val (PStr (method_name m)), Lit '': '', Exc e] st1)
           else (Inl e, st1)))"

fun scrapers_loop ::
  "world \<Rightarrow> scraper \<Rightarrow> scraper_method list \<Rightarrow> pydict list \<Rightarrow> state \<Rightarrow> (exn + pydict list) \<times> state" where
  "scrapers_loop w self [] all_data st = (Inr all_data, st)"
| "scrapers_loop w self (m # rest) all_data st =
     (case loop_body w self m all_data st of
        (Inl e, st1) \<Rightarrow> (Inl e, st1)
      | (Inr all_data1, st1) \<Rightarrow> scrapers_loop w self rest all_data1 st1)"

definition run_all_scrapers :: "world \<Rightarrow> scraper \<Rightarrow> state \<Rightarrow> (exn + pydict list) \<times> scraper \<times> state" where
  "run_all_scrapers w self st =
     (case scrapers_loop w self scrapers [] st of
        (Inl e, st1) \<Rightarrow> (Inl e, self, st1)
      | (Inr all_data, st1) \<Rightarrow> (Inr all_data, self\<lparr>scraped_data := all_data\<rparr>, st1))"

section \<open>The exports\<close>

text \<open>\<^verbatim>\<open>save_to_json\<close> dumps the whole list. A written file is held as the value
  dumped (JSON) or the rows passed to \<^verbatim>\<open>writerow\<close> (CSV); the encoders are the
  libraries'.\<close>

definition write_file :: "string \<Rightarrow> file_content \<Rightarrow> state \<Rightarrow> state" where
  "write_file filename c st = st\<lparr>files := (files st)(filename \<mapsto> c)\<rparr>"

definition save_to_json :: "world \<Rightarrow> scraper \<Rightarrow> string \<Rightarrow> state \<Rightarrow> (exn + unit) \<times> state" where
  "save_to_json w self filename st =
     (case open_w w filename of
        Inl e \<Rightarrow> (Inl e, st)
      | Inr u \<Rightarrow>
          (Inr (), logger INFO [Lit ''Data saved to '', Val (PStr filename)]
                     (write_file filename (JsonFile (PList (map PDict (scraped_data self)))) st)))"

text \<open>The \<^verbatim>\<open>if\<close>/\<^verbatim>\<open>elif\<close> chain of \<^verbatim>\<open>save_to_csv\<close> that picks the count of a row.\<close>

definition items_count :: "pydict \<Rightarrow> exn + pyval" where
  "items_count data =
     (if dict_has ''quotes'' data then Inr (dict_get data ''total_quotes'' (PInt 0))
      else if dict_has ''books'' data then Inr (dict_get data ''total_books'' (PInt 0))
      else if dict_has ''api_data'' data then Inr (dict_get data ''total_items'' (PInt 0))
      else if dict_has ''paragraphs'' data then
        (case py_len (dict_get data ''paragraphs'' (PList [])) of
           Inl e \<Rightarrow> Inl e
         | Inr n \<Rightarrow> Inr (PInt n))
      else Inr (PInt 0))"

definition csv_header :: "pyval list" where
  "csv_header = [PStr ''URL'', PStr ''Title'', PStr ''Type'', PStr ''Items Count'']"

text \<open>The loop over the records; the rows written so far stay in the file when
  \<^verbatim>\<open>len\<close> raises.\<close>

fun csv_loop :: "pydict list \<Rightarrow> pyval list list \<Rightarrow> exn option \<times> pyval list list" where
  "csv_loop [] rows = (None, rows)"
| "csv_loop (data # rest) rows =
     (case items_count data of
        Inl e \<Rightarrow> (Some e, rows)
      | Inr c \<Rightarrow>
          csv_loop rest
            (rows @ [[dict_get data ''url'' (PStr ''''), dict_get data ''title'' (PStr ''''),
                      dict_get data ''type'' (PStr ''''), c]]))"

definition save_to_csv :: "world \<Rightarrow> scraper \<Rightarrow> string \<Rightarrow> state \<Rightarrow> (exn + unit) \<times> state" where
  "save_to_csv w self filename st =
     (if scraped_data self = []
      then (Inr (), logger WARNING [Lit ''No data to save''] st)
      else
        (case open_w w filename of
           Inl e \<Rightarrow> (Inl e, st)
         | Inr u \<Rightarrow>
             (case csv_loop (scraped_data self) [csv_header] of
                (Some e, rows) \<Rightarrow> (Inl e, write_file filename (CsvFile rows) st)
              | (None, rows) \<Rightarrow>
                  (Inr (), logger INFO [Lit ''Summary saved to '', Val (PStr filename)]
                             (write_file filename (CsvFile rows) st)))))"

section \<open>Notions the properties are stated with\<close>

text \<open>The \<^verbatim>\<open>ERROR\<close> lines of the log.\<close>

definition error_count :: "state \<Rightarrow> nat" where
  "error_count st = length (filter (\<lambda>l. fst l = ERROR) (log st))"

text \<open>A quote container with both nodes, and the entry the loop appends for it.\<close>

definition has_text_and_author :: "node \<Rightarrow> bool" where
  "has_text_and_author quote_div =
     (find_bs [''span''] (Some ''text'') None quote_div \<noteq> None
      \<and> find_bs [''small''] (Some ''author'') None quote_div \<noteq> None)"

definition quote_entry :: "node \<Rightarrow> pyval" where
  "quote_entry quote_div =
     PDict [(''text'', PStr (strip (get_text (the (find_bs [''span''] (Some ''text'') None quote_div))))),
            (''author'', PStr (strip (get_text (the (find_bs [''small''] (Some ''author'') None quote_div))))),
            (''tags'', PList (map (\<lambda>t. PStr (strip (get_text t)))
                (find_all [''a''] (Some ''tag'') None quote_div)))]"

text \<open>A product container with a title anchor and a price, and its entry.\<close>

definition has_title_and_price :: "node \<Rightarrow> bool" where
  "has_title_and_price book_article =
     (title_elem_of book_article \<noteq> None
      \<and> find_bs [''p''] (Some ''price_color'') None book_article \<noteq> None)"

definition book_entry :: "node \<Rightarrow> pyval" where
  "book_entry book_article =
     PDict [(''title'', PStr (strip (attr_get (the (title_elem_of book_article)) ''title'' ''''))),
            (''price'', PStr (strip (get_text
                (the (find_bs [''p''] (Some ''price_color'') None book_article))))),
            (''rating'', PStr (rating_of
                (find_bs [''p''] (Some ''star-rating'') None book_article))),
            (''availability'', PStr (availability_of
                (find_bs [''p''] (Some ''instock availability'') None book_article)))]"

definition rating_vocabulary :: "string list" where
  "rating_vocabulary = [''One'', ''Two'', ''Three'', ''Four'', ''Five'']"

text \<open>The first line each scraper logs.\<close>

fun start_msg :: "scraper_method \<Rightarrow> string \<Rightarrow> frag list" where
  "start_msg Scrape_news_site url = [Lit ''Scraping news site: '', Val (PStr url)]"
| "start_msg Scrape_quotes_site url = [Lit ''Scraping quotes site: '', Val (PStr url)]"
| "start_msg Scrape_books_site url = [Lit ''Scraping books site: '', Val (PStr url)]"
| "start_msg Scrape_json_api url = [Lit ''Scraping JSON API: '', Val (PStr url)]"

text \<open>
  A source fails when its fetch raises (the sleep, the connection, the timeout, the
  HTTP status) or its extraction does: the parser rejects the body, or, for the news
  page, \<^verbatim>\<open>urljoin\<close> raises on one of the links.
\<close>

definition extraction_fails :: "world \<Rightarrow> scraper_method \<Rightarrow> string \<Rightarrow> response \<Rightarrow> bool" where
  "extraction_fails w m url resp =
     (case m of
        Scrape_json_api \<Rightarrow> isl (json_loads w (content resp))
      | Scrape_news_site \<Rightarrow>
          (case html_parser w (content resp) of
             Inl e \<Rightarrow> True
           | Inr soup \<Rightarrow> isl (links_loop w url (find_all [''a''] None (Some ''href'') soup) []))
      | Scrape_quotes_site \<Rightarrow> isl (html_parser w (content resp))
      | Scrape_books_site \<Rightarrow> isl (html_parser w (content resp)))"

definition source_fails :: "world \<Rightarrow> scraper \<Rightarrow> scraper_method \<Rightarrow> state \<Rightarrow> bool" where
  "source_fails w self m st =
     (case fst (fetch w self (default_url m) st) of
        Inl e \<Rightarrow> True
      | Inr resp \<Rightarrow> extraction_fails w m (default_url m) resp)"

section \<open>Example inputs\<close>

definition ex_state :: state where
  "ex_state = \<lparr>log = [], requests = [], sleeps = [], draws = 0, files = Map.empty\<rparr>"

definition ex_quote :: "string \<Rightarrow> string \<Rightarrow> string list \<Rightarrow> node" where
  "ex_quote t a tags =
     Element ''div'' [''quote''] []
       [Element ''span'' [''text''] [] [Text t],
        Element ''span'' [] [] [Text ''by '', Element ''small'' [''author''] [] [Text a]],
        Element ''div'' [''tags''] []
          (map (\<lambda>g. Element ''a'' [''tag''] [(''href'', ''/tag/'' @ g)] [Text g]) tags)]"

text \<open>Three complete quote containers (the second without tags) and one without an
  author.\<close>

definition ex_quotes_doc :: node where
  "ex_quotes_doc =
     Element ''[document]'' [] []
       [Element ''html'' [] []
          [Element ''head'' [] [] [Element ''title'' [] [] [Text ''Quotes to Scrape'']],
           Element ''body'' [] []
             [ex_quote '' Be yourself. '' ''Wilde'' [''life'', ''humor''],
              Element ''div'' [''quote''] [] [Element ''span'' [''text''] [] [Text ''Anonymous words'']],
              ex_quote ''So it goes.'' ''Vonnegut'' [],
              ex_quote ''Stay hungry.'' ''Brand'' [''advice'']]]]"

definition ex_book :: "string \<Rightarrow> string \<Rightarrow> string list \<Rightarrow> node list \<Rightarrow> node" where
  "ex_book t price rating_classes extra =
     Element ''article'' [''product_pod''] []
       ([Element ''p'' rating_classes [] [],
         Element ''h3'' [] [] [Element ''a'' [] [(''href'', ''b.html''), (''title'', t)] [Text t]],
         Element ''p'' [''price_color''] [] [Text price]] @ extra)"

text \<open>A book rated Three and in stock, a book whose rating paragraph has no
  recognised class and that has no availability paragraph, and a container without a
  price.\<close>

definition ex_books_doc :: node where
  "ex_books_doc =
     Element ''[document]'' [] []
       [Element ''html'' [] []
          [Element ''body'' [] []
             [ex_book ''Dune'' ''12.00'' [''star-rating'', ''Three'']
                [Element ''p'' [''instock'', ''availability''] [] [Text '' In stock '']],
              ex_book ''Emma'' ''9.50'' [''star-rating'', ''Zero''] [],
              Element ''article'' [''product_pod''] []
                [Element ''h3'' [] [] [Element ''a'' [] [(''title'', ''Ulysses'')] []]]]]]"

definition ex_news_doc :: node where
  "ex_news_doc =
     Element ''[document]'' [] []
       [Element ''html'' [] []
          [Element ''body'' [] []
             [Element ''h1'' [] [] [Text ''Herman Melville - Moby-Dick''],
              Element ''p'' [] [] [Text ''Availing himself of the mild weather.''],
              Element ''p'' [] [] [Text ''   ''],
              Element ''p'' [] [] [Text ''Call me Ishmael. '', Element ''a'' [] [(''href'', ''ch1'')] [Text ''more'']]]]]"

definition ex_posts :: pyval where
  "ex_posts = PList (map (\<lambda>i. PDict [(''id'', PInt i)]) [1, 2, 3, 4, 5, 6, 7, 8, 9, 10, 11, 12, 13, 14, 15])"

definition ex_object :: pyval where
  "ex_object = PDict [(''id'', PInt 1), (''name'', PStr ''Leanne'')]"

text \<open>A world where every request is answered with status 200; the body names the
  document the parser returns for it.\<close>

definition ex_parser :: "string \<Rightarrow> exn + node" where
  "ex_parser c =
     (if c = ''quotes'' then Inr ex_quotes_doc
      else if c = ''books'' then Inr ex_books_doc
      else if c = ''news'' then Inr ex_news_doc
      else Inl (ParserRejectedMarkup, c))"

definition ex_json :: "string \<Rightarrow> exn + pyval" where
  "ex_json c =
     (if c = ''posts'' then Inr ex_posts
      else if c = ''object'' then Inr ex_object
      else Inl (JSONDecodeError, ''Expecting value''))"

definition ex_ok :: "string \<Rightarrow> exn + response" where
  "ex_ok body = Inr \<lparr>status_code = 200, reason = ''OK'', content = body\<rparr>"

definition ex_net :: "nat \<Rightarrow> string \<Rightarrow> exn + response" where
  "ex_net i url =
     (if url = ''http://quotes.toscrape.com/'' then ex_ok ''quotes''
      else if url = ''http://books.toscrape.com/'' then ex_ok ''books''
      else if url = ''https://httpbin.org/html'' then ex_ok ''news''
      else if url = ''https://jsonplaceholder.typicode.com/posts'' then ex_ok ''posts''
      else if url = ''https://jsonplaceholder.typicode.com/users/1'' then ex_ok ''object''
      else Inl (ConnectionError, ''Name or service not known''))"

definition ex_world :: world where
  "ex_world = \<lparr>random = (\<lambda>i. 1 / 2), http_get = ex_net, html_parser = ex_parser,
     json_loads = ex_json, urljoin = (\<lambda>base href. Inr (base @ href)),
     open_w = (\<lambda>filename. Inr ())\<rparr>"

text \<open>A world where the quotes site times out, the parser rejects the body of the
  books site, the second catalogue page answers 503 and the API body is not JSON; only
  the news page is served.\<close>

definition ex_net_down :: "nat \<Rightarrow> string \<Rightarrow> exn + response" where
  "ex_net_down i url =
     (if url = ''http://quotes.toscrape.com/'' then Inl (Timeout, ''Read timed out'')
      else if url = ''http://books.toscrape.com/'' then ex_ok ''<<<''
      else if url = ''http://books.toscrape.com/catalogue/page-2.html''
        then Inr \<lparr>status_code = 503, reason = ''Service Unavailable'', content = ''''\<rparr>
      else if url = ''https://httpbin.org/html'' then ex_ok ''news''
      else if url = ''https://jsonplaceholder.typicode.com/posts'' then ex_ok ''<html>''
      else Inl (ConnectionError, ''Name or service not known''))"

definition ex_world_down :: world where
  "ex_world_down = ex_world\<lparr>http_get := ex_net_down\<rparr>"

text \<open>The records the scrapers return in the example world.\<close>

definition ex_quotes_record :: pydict where
  "ex_quotes_record =
     [(''url'', PStr ''http://quotes.toscrape.com/''),
      (''title'', PStr ''Quotes to Scrape''),
      (''quotes'', PList
         [PDict [(''text'', PStr ''Be yourself.''), (''author'', PStr ''Wilde''),
                 (''tags'', PList [PStr ''life'', PStr ''humor''])],
          PDict [(''text'', PStr ''So it goes.''), (''author'', PStr ''Vonnegut''),
                 (''tags'', PList [])],
          PDict [(''text'', PStr ''Stay hungry.''), (''author'', PStr ''Brand''),
                 (''tags'', PList [PStr ''advice''])]]),
      (''total_quotes'', PInt 3),
      (''type'', PStr ''quotes_site'')]"

definition ex_books_record :: pydict where
  "ex_books_record =
     [(''url'', PStr ''http://books.toscrape.com/''),
      (''title'', PStr ''Books to Scrape''),
      (''books'', PList
         [PDict [(''title'', PStr ''Dune''), (''price'', PStr ''12.00''),
                 (''rating'', PStr ''Three''), (''availability'', PStr ''In stock'')],
          PDict [(''title'', PStr ''Emma''), (''price'', PStr ''9.50''),
                 (''rating'', PStr ''Unknown''), (''availability'', PStr ''Unknown'')]]),
      (''total_books'', PInt 2),
      (''type'', PStr ''books_site'')]"

definition ex_news_record :: pydict where
  "ex_news_record =
     [(''url'', PStr ''https://httpbin.org/html''),
      (''title'', PStr ''No title found''),
      (''headings'', PList [PStr ''Herman Melville - Moby-Dick'']),
      (''paragraphs'', PList [PStr ''Availing himself of the mild weather.'',
                              PStr ''Call me Ishmael. more'']),
      (''links'', PList [PDict [(''text'', PStr ''more''),
                                (''url'', PStr ''https://httpbin.org/htmlch1'')]]),
      (''type'', PStr ''news_site'')]"

definition ex_posts_record :: pydict where
  "ex_posts_record =
     [(''url'', PStr ''https://jsonplaceholder.typicode.com/posts''),
      (''title'', PStr ''JSON API Data''),
      (''api_data'', PList (map (\<lambda>i. PDict [(''id'', PInt i)]) [1, 2, 3, 4, 5, 6, 7, 8, 9, 10])),
      (''total_items'', PInt 10),
      (''type'', PStr ''json_api'')]"

definition ex_object_record :: pydict where
  "ex_object_record =
     [(''url'', PStr ''https://jsonplaceholder.typicode.com/users/1''),
      (''title'', PStr ''JSON API Data''),
      (''api_data'', ex_object),
      (''total_items'', PInt 1),
      (''type'', PStr ''json_api'')]"

text \<open>The number of sources that fail in a batch over the methods \<^verbatim>\<open>ms\<close> started in
  state \<^verbatim>\<open>st\<close>: each source is judged in the state the loop has reached when it
  calls it.\<close>

fun failures :: "world \<Rightarrow> scraper \<Rightarrow> scraper_method list \<Rightarrow> state \<Rightarrow> nat" where
  "failures w self [] st = 0"
| "failures w self (m # rest) st =
     (if source_fails w self m st then 1 else 0)
       + failures w self rest (snd (loop_body w self m [] st))"

text \<open>What a call of a scraper does, by whether its source fails.\<close>

definition outcome_ok :: "world \<Rightarrow> scraper \<Rightarrow> scraper_method \<Rightarrow> state \<Rightarrow> bool" where
  "outcome_ok w self m st =
     (if source_fails w self m st
      then (fst (call_scraper w self m st) = Inr []
              \<and> error_count (snd (call_scraper w self m st)) = Suc (error_count st))
           \<or> (\<exists>e. fst (call_scraper w self m st) = Inl e
                 \<and> error_count (snd (call_scraper w self m st)) = error_count st)
      else (\<exists>d. fst (call_scraper w self m st) = Inr d \<and> d \<noteq> []
              \<and> error_count (snd (call_scraper w self m st)) = error_count st))"

text \<open>The count a record stores (\<^verbatim>\<open>total_quotes\<close>, \<^verbatim>\<open>total_books\<close> or
  \<^verbatim>\<open>total_items\<close>), if it stores one; the count cell of its summary row: the stored
  count, or the number of paragraphs for a record without one; and the row.\<close>

definition stored_count :: "pydict \<Rightarrow> pyval option" where
  "stored_count d =
     (case map_of d ''total_quotes'' of
        Some c \<Rightarrow> Some c
      | None \<Rightarrow>
          (case map_of d ''total_books'' of
             Some c \<Rightarrow> Some c
           | None \<Rightarrow> map_of d ''total_items''))"

definition count_cell :: "pydict \<Rightarrow> pyval" where
  "count_cell d =
     (case stored_count d of
        Some c \<Rightarrow> c
      | None \<Rightarrow>
          (case map_of d ''paragraphs'' of
             Some (PList ps) \<Rightarrow> PInt (int (length ps))
           | _ \<Rightarrow> PInt 0))"

definition summary_row :: "pydict \<Rightarrow> pyval list" where
  "summary_row d =
     [dict_get d ''url'' (PStr ''''), dict_get d ''title'' (PStr ''''),
      dict_get d ''type'' (PStr ''''), count_cell d]"

text \<open>A record is of the news kind when it stores no count: then its type is
  \<^verbatim>\<open>news_site\<close> and its count cell is the length of its \<^verbatim>\<open>paragraphs\<close>.\<close>

definition count_source_ok :: "pydict \<Rightarrow> bool" where
  "count_source_ok d =
     (case stored_count d of
        Some c \<Rightarrow> count_cell d = c \<and> (\<exists>n. c = PInt n)
      | None \<Rightarrow>
          map_of d ''type'' = Some (PStr ''news_site'')
          \<and> (\<exists>ps. map_of d ''paragraphs'' = Some (PList ps)
                \<and> count_cell d = PInt (int (length ps))))"

section \<open>Properties\<close>

subsection \<open>The loops as filters\<close>

lemma quotes_loop_eq:
  "quotes_loop cs acc = acc @ map quote_entry (filter has_text_and_author cs)"
proof (induction cs arbitrary: acc)
  case Nil
  show ?case by simp
next
  case (Cons c cs)
  show ?case
    by (cases "find_bs [''span''] (Some ''text'') None c";
        cases "find_bs [''small''] (Some ''author'') None c")
       (simp_all add: Cons.IH has_text_and_author_def quote_entry_def)
qed

lemma books_loop_eq:
  "books_loop cs acc = acc @ map book_entry (filter has_title_and_price cs)"
proof (induction cs arbitrary: acc)
  case Nil
  show ?case by simp
next
  case (Cons c cs)
  show ?case
    by (cases "title_elem_of c";
        cases "find_bs [''p''] (Some ''price_color'') None c")
       (simp_all add: Cons.IH has_title_and_price_def book_entry_def)
qed

lemma scrape_quotes_site_page:
  assumes "fst (get_page w self url (logger INFO [Lit ''Scraping quotes site: '', Val (PStr url)] st)) = Inr (Some soup)"
  shows "fst (scrape_quotes_site w self url st) =
     Inr [(''url'', PStr url),
          (''title'', PStr (title_text soup ''Quotes to Scrape'')),
          (''quotes'', PList (quotes_loop (find_all [''div''] (Some ''quote'') None soup) [])),
          (''total_quotes'', PInt (int (length (quotes_loop (find_all [''div''] (Some ''quote'') None soup) [])))),
          (''type'', PStr ''quotes_site'')]"
proof -
  obtain r st1 where g: "get_page w self url (logger INFO [Lit ''Scraping quotes site: '', Val (PStr url)] st) = (r, st1)"
    by (cases "get_page w self url (logger INFO [Lit ''Scraping quotes site: '', Val (PStr url)] st)")
  with assms have "r = Inr (Some soup)" by simp
  with g show ?thesis by (simp add: scrape_quotes_site_def Let_def)
qed

lemma scrape_books_site_page:
  assumes "fst (get_page w self url (logger INFO [Lit ''Scraping books site: '', Val (PStr url)] st)) = Inr (Some soup)"
  shows "fst (scrape_books_site w self url st) =
     Inr [(''url'', PStr url),
          (''title'', PStr (title_text soup ''Books to Scrape'')),
          (''books'', PList (books_loop (find_all [''article''] (Some ''product_pod'') None soup) [])),
          (''total_books'', PInt (int (length (books_loop (find_all [''article''] (Some ''product_pod'') None soup) [])))),
          (''type'', PStr ''books_site'')]"
proof -
  obtain r st1 where g: "get_page w self url (logger INFO [Lit ''Scraping books site: '', Val (PStr url)] st) = (r, st1)"
    by (cases "get_page w self url (logger INFO [Lit ''Scraping books site: '', Val (PStr url)] st)")
  with assms have "r = Inr (Some soup)" by simp
  with g show ?thesis by (simp add: scrape_books_site_def Let_def)
qed

subsection \<open>The example world\<close>

lemmas run_defs = init_def get_page_def fetch_def rate_limit_def uniform_def sleep_def
  session_get_def raise_for_status_def logger_def

lemmas ex_world_defs = ex_world_def ex_net_def ex_ok_def ex_parser_def ex_json_def ex_state_def

lemmas dom_defs = find_all_def find_bs_def class_matches_def strip_def isspace_def

lemma ex_quotes_page:
  "fst (get_page ex_world (init (1, 3)) ''http://quotes.toscrape.com/''
          (logger INFO [Lit ''Scraping quotes site: '', Val (PStr ''http://quotes.toscrape.com/'')] ex_state))
     = Inr (Some ex_quotes_doc)"
  by (simp add: run_defs ex_world_defs)

lemma ex_books_page:
  "fst (get_page ex_world (init (1, 3)) ''http://books.toscrape.com/''
          (logger INFO [Lit ''Scraping books site: '', Val (PStr ''http://books.toscrape.com/'')] ex_state))
     = Inr (Some ex_books_doc)"
  by (simp add: run_defs ex_world_defs)

lemma ex_quotes_containers:
  "length (find_all [''div''] (Some ''quote'') None ex_quotes_doc) = 4"
  by (simp add: ex_quotes_doc_def ex_quote_def find_all_def class_matches_def)

lemma ex_quotes_title: "title_text ex_quotes_doc ''Quotes to Scrape'' = ''Quotes to Scrape''"
  by (simp add: title_text_def ex_quotes_doc_def ex_quote_def dom_defs)

lemma ex_quotes_complete:
  "length (filter has_text_and_author (find_all [''div''] (Some ''quote'') None ex_quotes_doc)) = 3"
  by (simp add: ex_quotes_doc_def ex_quote_def find_all_def find_bs_def class_matches_def
        has_text_and_author_def)

lemma ex_quotes_entries:
  "map quote_entry (filter has_text_and_author (find_all [''div''] (Some ''quote'') None ex_quotes_doc)) =
     [PDict [(''text'', PStr ''Be yourself.''), (''author'', PStr ''Wilde''),
             (''tags'', PList [PStr ''life'', PStr ''humor''])],
      PDict [(''text'', PStr ''So it goes.''), (''author'', PStr ''Vonnegut''),
             (''tags'', PList [])],
      PDict [(''text'', PStr ''Stay hungry.''), (''author'', PStr ''Brand''),
             (''tags'', PList [PStr ''advice''])]]"
  by (simp add: ex_quotes_doc_def ex_quote_def dom_defs has_text_and_author_def quote_entry_def)

subsection \<open>The quote extractor\<close>

text \<open>
  Claim C5. For every document the page fetch returns, \<^verbatim>\<open>scrape_quotes_site\<close> raises
  nothing and its record holds, under \<^verbatim>\<open>quotes\<close>, one entry for each
  \<^verbatim>\<open>div.quote\<close> container that has both a text node and an author node, in document
  order, and nothing for the containers that miss one of them; \<^verbatim>\<open>total_quotes\<close> is
  the number of entries. On the example document (three complete containers and one
  without an author) that is three entries and a count of 3.
\<close>

theorem quotes_one_entry_per_complete_container:
  assumes "fst (get_page w self url (logger INFO [Lit ''Scraping quotes site: '', Val (PStr url)] st)) = Inr (Some soup)"
  shows "fst (scrape_quotes_site w self url st) =
     Inr [(''url'', PStr url),
          (''title'', PStr (title_text soup ''Quotes to Scrape'')),
          (''quotes'', PList (map quote_entry
              (filter has_text_and_author (find_all [''div''] (Some ''quote'') None soup)))),
          (''total_quotes'', PInt (int (length
              (filter has_text_and_author (find_all [''div''] (Some ''quote'') None soup))))),
          (''type'', PStr ''quotes_site'')]"
  using scrape_quotes_site_page [OF assms] by (simp add: quotes_loop_eq)

theorem quotes_one_entry_per_complete_container_witness:
  "length (find_all [''div''] (Some ''quote'') None ex_quotes_doc) = 4
   \<and> fst (scrape_quotes_site ex_world (init (1, 3)) ''http://quotes.toscrape.com/'' ex_state) =
     Inr [(''url'', PStr ''http://quotes.toscrape.com/''),
          (''title'', PStr ''Quotes to Scrape''),
          (''quotes'', PList
             [PDict [(''text'', PStr ''Be yourself.''), (''author'', PStr ''Wilde''),
                     (''tags'', PList [PStr ''life'', PStr ''humor''])],
              PDict [(''text'', PStr ''So it goes.''), (''author'', PStr ''Vonnegut''),
                     (''tags'', PList [])],
              PDict [(''text'', PStr ''Stay hungry.''), (''author'', PStr ''Brand''),
                     (''tags'', PList [PStr ''advice''])]]),
          (''total_quotes'', PInt 3),
          (''type'', PStr ''quotes_site'')]"
  using quotes_one_entry_per_complete_container [OF ex_quotes_page]
  by (simp add: ex_quotes_containers ex_quotes_title ex_quotes_complete ex_quotes_entries)

text \<open>
  Claim C10. A quote container that has a text node and an author node but no
  \<^verbatim>\<open>a.tag\<close> element is emitted all the same: the record's \<^verbatim>\<open>quotes\<close> list holds
  its entry, whose \<^verbatim>\<open>tags\<close> field is the empty list.
\<close>

theorem quote_without_tags_is_emitted:
  assumes "fst (get_page w self url (logger INFO [Lit ''Scraping quotes site: '', Val (PStr url)] st)) = Inr (Some soup)"
    and "quote_div \<in> set (find_all [''div''] (Some ''quote'') None soup)"
    and "find_bs [''span''] (Some ''text'') None quote_div = Some quote_text"
    and "find_bs [''small''] (Some ''author'') None quote_div = Some author"
    and "find_all [''a''] (Some ''tag'') None quote_div = []"
  shows "\<exists>d quotes. fst (scrape_quotes_site w self url st) = Inr d
     \<and> map_of d ''quotes'' = Some (PList quotes)
     \<and> PDict [(''text'', PStr (strip (get_text quote_text))),
               (''author'', PStr (strip (get_text author))),
               (''tags'', PList [])] \<in> set quotes"
proof -
  have c: "has_text_and_author quote_div"
    using assms(3,4) by (simp add: has_text_and_author_def)
  have e: "quote_entry quote_div =
      PDict [(''text'', PStr (strip (get_text quote_text))),
             (''author'', PStr (strip (get_text author))),
             (''tags'', PList [])]"
    using assms(3,4,5) by (simp add: quote_entry_def)
  have "quote_entry quote_div \<in> set (quotes_loop (find_all [''div''] (Some ''quote'') None soup) [])"
    using assms(2) c by (simp add: quotes_loop_eq)
  with e show ?thesis
    using scrape_quotes_site_page [OF assms(1)] by simp
qed

theorem quote_without_tags_is_emitted_witness:
  "\<exists>d quotes. fst (scrape_quotes_site ex_world (init (1, 3)) ''http://quotes.toscrape.com/'' ex_state) = Inr d
     \<and> map_of d ''quotes'' = Some (PList quotes)
     \<and> PDict [(''text'', PStr ''So it goes.''), (''author'', PStr ''Vonnegut''),
               (''tags'', PList [])] \<in> set quotes"
proof -
  have m: "ex_quote ''So it goes.'' ''Vonnegut'' []
             \<in> set (find_all [''div''] (Some ''quote'') None ex_quotes_doc)"
    by (simp add: ex_quotes_doc_def ex_quote_def find_all_def class_matches_def)
  have t: "find_bs [''span''] (Some ''text'') None (ex_quote ''So it goes.'' ''Vonnegut'' [])
             = Some (Element ''span'' [''text''] [] [Text ''So it goes.''])"
    by (simp add: ex_quote_def find_all_def find_bs_def class_matches_def)
  have a: "find_bs [''small''] (Some ''author'') None (ex_quote ''So it goes.'' ''Vonnegut'' [])
             = Some (Element ''small'' [''author''] [] [Text ''Vonnegut''])"
    by (simp add: ex_quote_def find_all_def find_bs_def class_matches_def)
  have g: "find_all [''a''] (Some ''tag'') None (ex_quote ''So it goes.'' ''Vonnegut'' []) = []"
    by (simp add: ex_quote_def find_all_def class_matches_def)
  show ?thesis
    using quote_without_tags_is_emitted [OF ex_quotes_page m t a g]
    by (simp add: strip_def isspace_def)
qed

subsection \<open>The catalog extractor\<close>

lemma rating_loop_first_match:
  "rating_loop cs dflt =
     (case List.find (\<lambda>c. c \<in> set rating_vocabulary) cs of None \<Rightarrow> dflt | Some c \<Rightarrow> c)"
  by (induction cs) (simp_all add: rating_vocabulary_def)

text \<open>
  Claim C6. The record of \<^verbatim>\<open>scrape_books_site\<close> holds one entry for each
  \<^verbatim>\<open>article.product_pod\<close> container with a title anchor and a price, in document
  order. In the entry of a container, \<^verbatim>\<open>rating\<close> is the first class token of the
  \<^verbatim>\<open>p.star-rating\<close> element that is one of One, Two, Three, Four, Five, and
  \<^verbatim>\<open>Unknown\<close> when no token is or the element is absent; \<^verbatim>\<open>availability\<close> is
  \<^verbatim>\<open>Unknown\<close> when the availability element is absent, its stripped text otherwise.
\<close>

theorem book_rating_and_availability:
  assumes "fst (get_page w self url (logger INFO [Lit ''Scraping books site: '', Val (PStr url)] st)) = Inr (Some soup)"
  shows "fst (scrape_books_site w self url st) =
     Inr [(''url'', PStr url),
          (''title'', PStr (title_text soup ''Books to Scrape'')),
          (''books'', PList (map book_entry
              (filter has_title_and_price (find_all [''article''] (Some ''product_pod'') None soup)))),
          (''total_books'', PInt (int (length
              (filter has_title_and_price (find_all [''article''] (Some ''product_pod'') None soup))))),
          (''type'', PStr ''books_site'')]
   \<and> book_entry book_article =
     PDict [(''title'', PStr (strip (attr_get (the (title_elem_of book_article)) ''title'' ''''))),
            (''price'', PStr (strip (get_text
                (the (find_bs [''p''] (Some ''price_color'') None book_article))))),
            (''rating'', PStr
               (case find_bs [''p''] (Some ''star-rating'') None book_article of
                  None \<Rightarrow> ''Unknown''
                | Some rating_elem \<Rightarrow>
                    (case List.find (\<lambda>c. c \<in> set rating_vocabulary) (class_get rating_elem) of
                       None \<Rightarrow> ''Unknown''
                     | Some c \<Rightarrow> c))),
            (''availability'', PStr
               (case find_bs [''p''] (Some ''instock availability'') None book_article of
                  None \<Rightarrow> ''Unknown''
                | Some availability_elem \<Rightarrow> strip (get_text availability_elem)))]"
proof -
  have "rating_of (find_bs [''p''] (Some ''star-rating'') None book_article) =
      (case find_bs [''p''] (Some ''star-rating'') None book_article of
         None \<Rightarrow> ''Unknown''
       | Some rating_elem \<Rightarrow>
           (case List.find (\<lambda>c. c \<in> set rating_vocabulary) (class_get rating_elem) of
              None \<Rightarrow> ''Unknown''
            | Some c \<Rightarrow> c))"
    by (simp add: rating_of_def rating_loop_first_match split: option.splits)
  then show ?thesis
    using scrape_books_site_page [OF assms]
    by (simp add: books_loop_eq book_entry_def availability_of_def)
qed

lemma ex_books_entries:
  "map book_entry (filter has_title_and_price
       (find_all [''article''] (Some ''product_pod'') None ex_books_doc)) =
     [PDict [(''title'', PStr ''Dune''), (''price'', PStr ''12.00''),
             (''rating'', PStr ''Three''), (''availability'', PStr ''In stock'')],
      PDict [(''title'', PStr ''Emma''), (''price'', PStr ''9.50''),
             (''rating'', PStr ''Unknown''), (''availability'', PStr ''Unknown'')]]"
  by (simp add: ex_books_doc_def ex_book_def dom_defs has_title_and_price_def book_entry_def
        title_elem_of_def attr_get_def rating_of_def class_get_def availability_of_def)

lemma ex_books_complete:
  "length (filter has_title_and_price
       (find_all [''article''] (Some ''product_pod'') None ex_books_doc)) = 2"
  by (simp add: ex_books_doc_def ex_book_def find_all_def find_bs_def class_matches_def
        has_title_and_price_def title_elem_of_def)

lemma ex_books_title: "title_text ex_books_doc ''Books to Scrape'' = ''Books to Scrape''"
  by (simp add: title_text_def ex_books_doc_def ex_book_def dom_defs)

theorem book_rating_and_availability_witness:
  "fst (scrape_books_site ex_world (init (1, 3)) ''http://books.toscrape.com/'' ex_state) = Inr ex_books_record
   \<and> book_entry (ex_book ''Dune'' ''12.00'' [''star-rating'', ''Three'']
         [Element ''p'' [''instock'', ''availability''] [] [Text '' In stock '']]) =
     PDict [(''title'', PStr ''Dune''), (''price'', PStr ''12.00''),
            (''rating'', PStr ''Three''), (''availability'', PStr ''In stock'')]"
proof -
  note t = book_rating_and_availability [OF ex_books_page,
      of "ex_book ''Dune'' ''12.00'' [''star-rating'', ''Three'']
            [Element ''p'' [''instock'', ''availability''] [] [Text '' In stock '']]"]
  from t have r: "fst (scrape_books_site ex_world (init (1, 3)) ''http://books.toscrape.com/'' ex_state)
      = Inr ex_books_record"
    by (simp add: ex_books_entries ex_books_complete ex_books_title ex_books_record_def)
  from t have "book_entry (ex_book ''Dune'' ''12.00'' [''star-rating'', ''Three'']
         [Element ''p'' [''instock'', ''availability''] [] [Text '' In stock '']]) =
     PDict [(''title'', PStr ''Dune''), (''price'', PStr ''12.00''),
            (''rating'', PStr ''Three''), (''availability'', PStr ''In stock'')]"
    by (simp add: ex_book_def dom_defs title_elem_of_def attr_get_def class_get_def
          rating_vocabulary_def)
  with r show ?thesis by simp
qed

subsection \<open>The shape of the records\<close>

lemma scrape_quotes_site_record:
  assumes "fst (scrape_quotes_site w self url st) = Inr d" and "d \<noteq> []"
  shows "\<exists>quotes title. d =
     [(''url'', PStr url), (''title'', PStr title), (''quotes'', PList quotes),
      (''total_quotes'', PInt (int (length quotes))), (''type'', PStr ''quotes_site'')]"
proof -
  obtain r st1 where g: "get_page w self url (logger INFO [Lit ''Scraping quotes site: '', Val (PStr url)] st) = (r, st1)"
    by (cases "get_page w self url (logger INFO [Lit ''Scraping quotes site: '', Val (PStr url)] st)")
  show ?thesis
    using assms g by (cases r) (auto simp: scrape_quotes_site_def Let_def split: option.splits)
qed

lemma scrape_books_site_record:
  assumes "fst (scrape_books_site w self url st) = Inr d" and "d \<noteq> []"
  shows "\<exists>books title. d =
     [(''url'', PStr url), (''title'', PStr title), (''books'', PList books),
      (''total_books'', PInt (int (length books))), (''type'', PStr ''books_site'')]"
proof -
  obtain r st1 where g: "get_page w self url (logger INFO [Lit ''Scraping books site: '', Val (PStr url)] st) = (r, st1)"
    by (cases "get_page w self url (logger INFO [Lit ''Scraping books site: '', Val (PStr url)] st)")
  show ?thesis
    using assms g by (cases r) (auto simp: scrape_books_site_def Let_def split: option.splits)
qed

lemma scrape_news_site_record:
  assumes "fst (scrape_news_site w self url st) = Inr d" and "d \<noteq> []"
  shows "\<exists>title headings paragraphs links. d =
     [(''url'', PStr url), (''title'', PStr title), (''headings'', PList headings),
      (''paragraphs'', PList paragraphs), (''links'', PList links), (''type'', PStr ''news_site'')]"
proof -
  obtain r st1 where g: "get_page w self url (logger INFO [Lit ''Scraping news site: '', Val (PStr url)] st) = (r, st1)"
    by (cases "get_page w self url (logger INFO [Lit ''Scraping news site: '', Val (PStr url)] st)")
  show ?thesis
    using assms g
    by (cases r) (auto simp: scrape_news_site_def split: option.splits sum.splits)
qed

lemma limit10_count:
  "(\<exists>xs. limit10 data = PList xs \<and> length xs \<le> 10 \<and> total_items_of (limit10 data) = int (length xs))
   \<or> ((\<forall>xs. limit10 data \<noteq> PList xs) \<and> limit10 data = data \<and> total_items_of (limit10 data) = 1)"
  by (cases data) simp_all

lemma scrape_json_api_record:
  assumes "fst (scrape_json_api w self url st) = Inr d" and "d \<noteq> []"
  shows "\<exists>data0. d =
     [(''url'', PStr url), (''title'', PStr ''JSON API Data''), (''api_data'', limit10 data0),
      (''total_items'', PInt (total_items_of (limit10 data0))), (''type'', PStr ''json_api'')]"
proof -
  obtain r st1 where g: "fetch w self url (logger INFO [Lit ''Scraping JSON API: '', Val (PStr url)] st) = (r, st1)"
    by (cases "fetch w self url (logger INFO [Lit ''Scraping JSON API: '', Val (PStr url)] st)")
  show ?thesis
    using assms g
    by (cases r) (auto simp: scrape_json_api_def Let_def split: sum.splits if_splits)
qed

text \<open>
  Claim C2. In every record a scraper returns, the stored count is the size of the
  collection stored beside it: \<^verbatim>\<open>total_quotes\<close> is the length of \<^verbatim>\<open>quotes\<close>,
  \<^verbatim>\<open>total_books\<close> the length of \<^verbatim>\<open>books\<close>, and \<^verbatim>\<open>total_items\<close> the length of
  \<^verbatim>\<open>api_data\<close> when that is a list (of at most 10 elements) and 1 when it is anything
  else, a single object included. (The record of the news scraper stores no count.)
\<close>

theorem stored_count_is_collection_size:
  assumes "fst (scrape_url w self m url st) = Inr d" and "d \<noteq> []"
  shows "case m of
      Scrape_quotes_site \<Rightarrow>
        (\<exists>quotes. map_of d ''quotes'' = Some (PList quotes)
           \<and> map_of d ''total_quotes'' = Some (PInt (int (length quotes))))
    | Scrape_books_site \<Rightarrow>
        (\<exists>books. map_of d ''books'' = Some (PList books)
           \<and> map_of d ''total_books'' = Some (PInt (int (length books))))
    | Scrape_json_api \<Rightarrow>
        (\<exists>data. map_of d ''api_data'' = Some data
           \<and> ((\<exists>xs. data = PList xs \<and> length xs \<le> 10
                  \<and> map_of d ''total_items'' = Some (PInt (int (length xs))))
               \<or> ((\<forall>xs. data \<noteq> PList xs) \<and> map_of d ''total_items'' = Some (PInt 1))))
    | Scrape_news_site \<Rightarrow>
        map_of d ''total_quotes'' = None \<and> map_of d ''total_books'' = None
          \<and> map_of d ''total_items'' = None"
proof (cases m)
  case Scrape_news_site
  with assms scrape_news_site_record [of w self url st d] show ?thesis by auto
next
  case Scrape_quotes_site
  with assms scrape_quotes_site_record [of w self url st d] show ?thesis by auto
next
  case Scrape_books_site
  with assms scrape_books_site_record [of w self url st d] show ?thesis by auto
next
  case Scrape_json_api
  with assms scrape_json_api_record [of w self url st d]
  obtain data0 where d: "d =
     [(''url'', PStr url), (''title'', PStr ''JSON API Data''), (''api_data'', limit10 data0),
      (''total_items'', PInt (total_items_of (limit10 data0))), (''type'', PStr ''json_api'')]"
    by auto
  show ?thesis
    using limit10_count [of data0] Scrape_json_api by (auto simp: d)
qed

lemma ex_quotes_scrape:
  "fst (scrape_url ex_world (init (1, 3)) Scrape_quotes_site ''http://quotes.toscrape.com/'' ex_state)
     = Inr ex_quotes_record"
  using scrape_quotes_site_page [OF ex_quotes_page]
  by (simp add: quotes_loop_eq ex_quotes_entries ex_quotes_title ex_quotes_record_def)

lemma ex_books_scrape:
  "fst (scrape_url ex_world (init (1, 3)) Scrape_books_site ''http://books.toscrape.com/'' ex_state)
     = Inr ex_books_record"
  using scrape_books_site_page [OF ex_books_page]
  by (simp add: books_loop_eq ex_books_entries ex_books_title ex_books_record_def)

lemma ex_posts_scrape:
  "fst (scrape_url ex_world (init (1, 3)) Scrape_json_api ''https://jsonplaceholder.typicode.com/posts'' ex_state)
     = Inr ex_posts_record"
  by (simp add: scrape_json_api_def run_defs ex_world_defs ex_posts_def ex_posts_record_def)

lemma ex_object_scrape:
  "fst (scrape_url ex_world (init (1, 3)) Scrape_json_api ''https://jsonplaceholder.typicode.com/users/1'' ex_state)
     = Inr ex_object_record"
  by (simp add: scrape_json_api_def run_defs ex_world_defs ex_object_def ex_object_record_def)

lemma ex_news_scrape:
  "fst (scrape_url ex_world (init (1, 3)) Scrape_news_site ''https://httpbin.org/html'' ex_state)
     = Inr ex_news_record"
  by (simp add: scrape_news_site_def run_defs ex_world_defs ex_news_doc_def ex_news_record_def
        dom_defs title_text_def headings_of_def paragraphs_of_def attr_index_def)

theorem stored_count_is_collection_size_witness:
  "(\<exists>quotes. map_of ex_quotes_record ''quotes'' = Some (PList quotes)
       \<and> map_of ex_quotes_record ''total_quotes'' = Some (PInt (int (length quotes))))
   \<and> (\<exists>books. map_of ex_books_record ''books'' = Some (PList books)
       \<and> map_of ex_books_record ''total_books'' = Some (PInt (int (length books))))
   \<and> (\<exists>xs. map_of ex_posts_record ''api_data'' = Some (PList xs) \<and> length xs = 10
       \<and> map_of ex_posts_record ''total_items'' = Some (PInt (int (length xs))))
   \<and> map_of ex_object_record ''api_data'' = Some ex_object
   \<and> map_of ex_object_record ''total_items'' = Some (PInt 1)"
proof -
  have q: "ex_quotes_record \<noteq> []" by (simp add: ex_quotes_record_def)
  have b: "ex_books_record \<noteq> []" by (simp add: ex_books_record_def)
  have p: "ex_posts_record \<noteq> []" by (simp add: ex_posts_record_def)
  have "\<exists>xs. map_of ex_posts_record ''api_data'' = Some (PList xs) \<and> length xs = 10
       \<and> map_of ex_posts_record ''total_items'' = Some (PInt (int (length xs)))"
    using stored_count_is_collection_size [OF ex_posts_scrape p]
    by (simp add: ex_posts_record_def)
  moreover have "map_of ex_object_record ''api_data'' = Some ex_object
      \<and> map_of ex_object_record ''total_items'' = Some (PInt 1)"
    by (simp add: ex_object_record_def)
  ultimately show ?thesis
    using stored_count_is_collection_size [OF ex_quotes_scrape q]
      stored_count_is_collection_size [OF ex_books_scrape b]
    by simp
qed

subsection \<open>The JSON extractor\<close>

text \<open>
  Claim C4, as the code has it. When the fetch succeeds and the body parses,
  \<^verbatim>\<open>scrape_json_api\<close> raises nothing; a top-level list is stored cut to its first 10
  elements and \<^verbatim>\<open>total_items\<close> is the length of what is stored (10 for a list of 15);
  any other top-level value, a single object included, is stored as it is, not wrapped
  in a list, and \<^verbatim>\<open>total_items\<close> is 1.
\<close>

theorem json_api_payload_and_count:
  assumes "fst (fetch w self url (logger INFO [Lit ''Scraping JSON API: '', Val (PStr url)] st)) = Inr resp"
    and "json_loads w (content resp) = Inr data"
  shows "fst (scrape_json_api w self url st) =
     Inr [(''url'', PStr url),
          (''title'', PStr ''JSON API Data''),
          (''api_data'', (case data of PList xs \<Rightarrow> PList (take 10 xs) | _ \<Rightarrow> data)),
          (''total_items'', PInt (case data of PList xs \<Rightarrow> int (min 10 (length xs)) | _ \<Rightarrow> 1)),
          (''type'', PStr ''json_api'')]"
proof -
  obtain r st1 where g: "fetch w self url (logger INFO [Lit ''Scraping JSON API: '', Val (PStr url)] st) = (r, st1)"
    by (cases "fetch w self url (logger INFO [Lit ''Scraping JSON API: '', Val (PStr url)] st)")
  with assms(1) have "r = Inr resp" by simp
  with g assms(2) show ?thesis
    by (cases data) (simp_all add: scrape_json_api_def Let_def min_def)
qed

lemma ex_posts_fetch:
  "fst (fetch ex_world (init (1, 3)) ''https://jsonplaceholder.typicode.com/posts''
      (logger INFO [Lit ''Scraping JSON API: '', Val (PStr ''https://jsonplaceholder.typicode.com/posts'')] ex_state))
     = Inr \<lparr>status_code = 200, reason = ''OK'', content = ''posts''\<rparr>"
  by (simp add: run_defs ex_world_defs)

lemma ex_object_fetch:
  "fst (fetch ex_world (init (1, 3)) ''https://jsonplaceholder.typicode.com/users/1''
      (logger INFO [Lit ''Scraping JSON API: '', Val (PStr ''https://jsonplaceholder.typicode.com/users/1'')] ex_state))
     = Inr \<lparr>status_code = 200, reason = ''OK'', content = ''object''\<rparr>"
  by (simp add: run_defs ex_world_defs)

theorem json_api_payload_and_count_witness:
  "(\<exists>xs. ex_posts = PList xs \<and> length xs = 15)
   \<and> fst (scrape_json_api ex_world (init (1, 3)) ''https://jsonplaceholder.typicode.com/posts'' ex_state)
       = Inr ex_posts_record
   \<and> (\<exists>ys. map_of ex_posts_record ''api_data'' = Some (PList ys) \<and> length ys = 10)
   \<and> map_of ex_posts_record ''total_items'' = Some (PInt 10)
   \<and> fst (scrape_json_api ex_world (init (1, 3)) ''https://jsonplaceholder.typicode.com/users/1'' ex_state)
       = Inr ex_object_record
   \<and> map_of ex_object_record ''total_items'' = Some (PInt 1)"
proof -
  have p: "json_loads ex_world (content \<lparr>status_code = 200, reason = ''OK'', content = ''posts''\<rparr>) = Inr ex_posts"
    by (simp add: ex_world_defs)
  have ob: "json_loads ex_world (content \<lparr>status_code = 200, reason = ''OK'', content = ''object''\<rparr>) = Inr ex_object"
    by (simp add: ex_world_defs)
  have "fst (scrape_json_api ex_world (init (1, 3)) ''https://jsonplaceholder.typicode.com/posts'' ex_state)
       = Inr ex_posts_record"
    using json_api_payload_and_count [OF ex_posts_fetch p]
    by (simp add: ex_posts_def ex_posts_record_def)
  moreover have "fst (scrape_json_api ex_world (init (1, 3)) ''https://jsonplaceholder.typicode.com/users/1'' ex_state)
       = Inr ex_object_record"
    using json_api_payload_and_count [OF ex_object_fetch ob]
    by (simp add: ex_object_def ex_object_record_def)
  ultimately show ?thesis
    by (simp add: ex_posts_def ex_posts_record_def ex_object_record_def)
qed

text \<open>The statement of C4 has the single object wrapped; the record holds the object
  itself, not a one-element list around it.\<close>

theorem json_object_is_not_wrapped:
  "fst (scrape_json_api ex_world (init (1, 3)) ''https://jsonplaceholder.typicode.com/users/1'' ex_state)
       = Inr ex_object_record
   \<and> map_of ex_object_record ''api_data'' = Some (PDict [(''id'', PInt 1), (''name'', PStr ''Leanne'')])
   \<and> map_of ex_object_record ''api_data'' \<noteq> Some (PList [PDict [(''id'', PInt 1), (''name'', PStr ''Leanne'')]])"
  using ex_object_scrape by (simp add: ex_object_record_def ex_object_def)

subsection \<open>Failures of a single scraper\<close>

lemma get_page_request_error:
  assumes "fst (fetch w self url st) = Inl e" and "is_RequestException e"
  shows "get_page w self url st =
     (Inr None, logger ERROR [Lit ''Error fetching '', Val (PStr url), Lit '': '', Exc e]
                  (snd (fetch w self url st)))"
proof -
  obtain r st1 where g: "fetch w self url st = (r, st1)"
    by (cases "fetch w self url st")
  with assms show ?thesis by (simp add: get_page_def)
qed

lemma log_logger: "log (logger lv msg st) = log st @ [(lv, msg)]"
  by (simp add: logger_def)

text \<open>
  Claim C8, as the code has it. When the fetch of a per-site scrape method raises a
  request error (connection, timeout, HTTP status), or, in \<^verbatim>\<open>scrape_json_api\<close>, the
  body is not JSON, the method does not raise: it returns the empty dict, whatever the
  kind of the error, and appends one \<^verbatim>\<open>ERROR\<close> line holding the exception to the log.
  The kind reaches the log only, not the caller.
\<close>

theorem request_error_returns_empty_dict:
  assumes "fst (fetch w self url (logger INFO (start_msg m url) st)) = Inl e
           \<or> (m = Scrape_json_api
               \<and> (\<exists>resp. fst (fetch w self url (logger INFO (start_msg m url) st)) = Inr resp
                     \<and> json_loads w (content resp) = Inl e))"
    and "is_RequestException e \<or> (m = Scrape_json_api \<and> is_JSONDecodeError e)"
  shows "fst (scrape_url w self m url st) = Inr []
     \<and> (\<exists>prefix. log (snd (scrape_url w self m url st)) =
           log (snd (fetch w self url (logger INFO (start_msg m url) st)))
             @ [(ERROR, [Lit prefix, Val (PStr url), Lit '': '', Exc e])])"
proof (cases m)
  case Scrape_news_site
  with assms have f: "fst (fetch w self url (logger INFO [Lit ''Scraping news site: '', Val (PStr url)] st)) = Inl e"
    and r: "is_RequestException e" by simp_all
  show ?thesis
    using get_page_request_error [OF f r] Scrape_news_site
    by (simp add: scrape_news_site_def log_logger)
next
  case Scrape_quotes_site
  with assms have f: "fst (fetch w self url (logger INFO [Lit ''Scraping quotes site: '', Val (PStr url)] st)) = Inl e"
    and r: "is_RequestException e" by simp_all
  show ?thesis
    using get_page_request_error [OF f r] Scrape_quotes_site
    by (simp add: scrape_quotes_site_def log_logger)
next
  case Scrape_books_site
  with assms have f: "fst (fetch w self url (logger INFO [Lit ''Scraping books site: '', Val (PStr url)] st)) = Inl e"
    and r: "is_RequestException e" by simp_all
  show ?thesis
    using get_page_request_error [OF f r] Scrape_books_site
    by (simp add: scrape_books_site_def log_logger)
next
  case Scrape_json_api
  obtain r st1 where g: "fetch w self url (logger INFO [Lit ''Scraping JSON API: '', Val (PStr url)] st) = (r, st1)"
    by (cases "fetch w self url (logger INFO [Lit ''Scraping JSON API: '', Val (PStr url)] st)")
  from assms(2) have c: "is_RequestException e \<or> is_JSONDecodeError e" by auto
  from assms(1) Scrape_json_api g
  have "r = Inl e \<or> (\<exists>resp. r = Inr resp \<and> json_loads w (content resp) = Inl e)"
    by auto
  then show ?thesis
  proof
    assume "r = Inl e"
    with g c Scrape_json_api show ?thesis
      by (auto simp: scrape_json_api_def log_logger)
  next
    assume "\<exists>resp. r = Inr resp \<and> json_loads w (content resp) = Inl e"
    then obtain resp where "r = Inr resp" and "json_loads w (content resp) = Inl e" by auto
    with g c Scrape_json_api show ?thesis
      by (auto simp: scrape_json_api_def log_logger)
  qed
qed

lemma ex_timeout_fetch:
  "fst (fetch ex_world_down (init (1, 3)) ''http://quotes.toscrape.com/''
      (logger INFO (start_msg Scrape_quotes_site ''http://quotes.toscrape.com/'') ex_state))
     = Inl (Timeout, ''Read timed out'')"
  by (simp add: run_defs ex_world_down_def ex_net_down_def ex_world_defs)

lemma ex_unreachable_fetch:
  "fst (fetch ex_world_down (init (1, 3)) ''http://quotes.toscrape.com/page/2/''
      (logger INFO (start_msg Scrape_quotes_site ''http://quotes.toscrape.com/page/2/'') ex_state))
     = Inl (ConnectionError, ''Name or service not known'')"
  by (simp add: run_defs ex_world_down_def ex_net_down_def ex_world_defs)

theorem request_error_returns_empty_dict_witness:
  "fst (scrape_url ex_world_down (init (1, 3)) Scrape_quotes_site ''http://quotes.toscrape.com/'' ex_state) = Inr []
   \<and> log (snd (scrape_url ex_world_down (init (1, 3)) Scrape_quotes_site ''http://quotes.toscrape.com/'' ex_state)) =
       [(INFO, [Lit ''Scraping quotes site: '', Val (PStr ''http://quotes.toscrape.com/'')]),
        (ERROR, [Lit ''Error fetching '', Val (PStr ''http://quotes.toscrape.com/''), Lit '': '',
                 Exc (Timeout, ''Read timed out'')])]"
proof -
  have k: "is_RequestException (Timeout, ''Read timed out'')
      \<or> (Scrape_quotes_site = Scrape_json_api \<and> is_JSONDecodeError (Timeout, ''Read timed out''))"
    by simp
  have r: "fst (scrape_url ex_world_down (init (1, 3)) Scrape_quotes_site ''http://quotes.toscrape.com/'' ex_state) = Inr []"
    using request_error_returns_empty_dict [OF disjI1 [OF ex_timeout_fetch] k] by simp
  have "log (snd (scrape_url ex_world_down (init (1, 3)) Scrape_quotes_site ''http://quotes.toscrape.com/'' ex_state)) =
       [(INFO, [Lit ''Scraping quotes site: '', Val (PStr ''http://quotes.toscrape.com/'')]),
        (ERROR, [Lit ''Error fetching '', Val (PStr ''http://quotes.toscrape.com/''), Lit '': '',
                 Exc (Timeout, ''Read timed out'')])]"
    by (simp add: scrape_quotes_site_def run_defs ex_world_down_def ex_net_down_def ex_world_defs)
  with r show ?thesis by simp
qed

text \<open>The statement of C8 has the error kind surfaced to the caller. A timeout and an
  unreachable host are two kinds of error, and the caller of \<^verbatim>\<open>scrape_quotes_site\<close>
  receives the same empty dict for both.\<close>

theorem error_kind_is_not_returned:
  "fst (fetch ex_world_down (init (1, 3)) ''http://quotes.toscrape.com/''
      (logger INFO (start_msg Scrape_quotes_site ''http://quotes.toscrape.com/'') ex_state))
     = Inl (Timeout, ''Read timed out'')
   \<and> fst (fetch ex_world_down (init (1, 3)) ''http://quotes.toscrape.com/page/2/''
      (logger INFO (start_msg Scrape_quotes_site ''http://quotes.toscrape.com/page/2/'') ex_state))
     = Inl (ConnectionError, ''Name or service not known'')
   \<and> fst (scrape_quotes_site ex_world_down (init (1, 3)) ''http://quotes.toscrape.com/'' ex_state) = Inr []
   \<and> fst (scrape_quotes_site ex_world_down (init (1, 3)) ''http://quotes.toscrape.com/page/2/'' ex_state) = Inr []"
  by (simp add: scrape_quotes_site_def run_defs ex_world_down_def ex_net_down_def ex_world_defs)

subsection \<open>The delay range\<close>

lemma inverted_range_delay:
  fixes a b r :: rat
  assumes "b < a" and "0 \<le> r" and "r \<le> 1"
  shows "b \<le> a + (b - a) * r" and "a + (b - a) * r \<le> a"
proof -
  have "(a - b) * r \<le> (a - b) * 1"
    using assms by (intro mult_left_mono) simp_all
  then show "b \<le> a + (b - a) * r" by (simp add: algebra_simps)
  have "0 \<le> (a - b) * r"
    using assms by (intro mult_nonneg_nonneg) simp_all
  then show "a + (b - a) * r \<le> a" by (simp add: algebra_simps)
qed

text \<open>
  Claim C9, as the code has it. No delay range is rejected: \<^verbatim>\<open>__init__\<close> stores the
  pair as given, and with a minimum above a non-negative maximum the fetch sleeps a
  delay between the maximum and the minimum and then issues the request.
\<close>

theorem inverted_delay_range_is_accepted:
  assumes "snd dr < fst dr" and "0 \<le> snd dr"
    and "0 \<le> random w (draws st)" and "random w (draws st) \<le> 1"
  shows "delay_range (init dr) = dr
     \<and> requests (snd (fetch w (init dr) url st)) = requests st @ [url]
     \<and> (\<exists>delay. sleeps (snd (fetch w (init dr) url st)) = sleeps st @ [delay]
           \<and> snd dr \<le> delay \<and> delay \<le> fst dr)"
proof -
  let ?d = "fst dr + (snd dr - fst dr) * random w (draws st)"
  have lo: "snd dr \<le> ?d" and hi: "?d \<le> fst dr"
    using inverted_range_delay [OF assms(1,3,4)] by simp_all
  from lo assms(2) have nn: "\<not> ?d < 0" by simp
  have i: "delay_range (init dr) = dr" by (simp add: init_def)
  have r: "rate_limit w (init dr) st =
      (Inr (), st\<lparr>draws := Suc (draws st), sleeps := sleeps st @ [?d]\<rparr>)"
    using nn by (simp add: rate_limit_def uniform_def sleep_def i)
  have "requests (snd (fetch w (init dr) url st)) = requests st @ [url]
      \<and> sleeps (snd (fetch w (init dr) url st)) = sleeps st @ [?d]"
    by (simp add: fetch_def r session_get_def split: sum.splits)
  with i lo hi show ?thesis by blast
qed

theorem inverted_delay_range_is_accepted_witness:
  "delay_range (init (3, 1)) = (3, 1)
   \<and> requests (snd (fetch ex_world (init (3, 1)) ''http://quotes.toscrape.com/'' ex_state))
       = [''http://quotes.toscrape.com/'']
   \<and> sleeps (snd (fetch ex_world (init (3, 1)) ''http://quotes.toscrape.com/'' ex_state)) = [2]"
proof -
  have a: "snd (3 :: rat, 1 :: rat) < fst (3 :: rat, 1 :: rat)" by simp
  have b: "0 \<le> snd (3 :: rat, 1 :: rat)" by simp
  have c: "0 \<le> random ex_world (draws ex_state)" by (simp add: ex_world_def)
  have d: "random ex_world (draws ex_state) \<le> 1" by (simp add: ex_world_def)
  have "sleeps (snd (fetch ex_world (init (3, 1)) ''http://quotes.toscrape.com/'' ex_state)) = [2]"
    by (simp add: run_defs ex_world_defs)
  then show ?thesis
    using inverted_delay_range_is_accepted [OF a b c d, of "''http://quotes.toscrape.com/''"]
    by (simp add: ex_state_def)
qed

text \<open>The statement of C9 has such a configuration rejected before any fetch. With the
  range (3, 1) the scraper is constructed, and \<^verbatim>\<open>_get_page\<close> sleeps 2 seconds, issues
  the request and returns the parsed page.\<close>

theorem inverted_delay_range_still_fetches:
  "delay_range (init (3, 1)) = (3, 1)
   \<and> fst (get_page ex_world (init (3, 1)) ''http://quotes.toscrape.com/'' ex_state)
       = Inr (Some ex_quotes_doc)
   \<and> requests (snd (get_page ex_world (init (3, 1)) ''http://quotes.toscrape.com/'' ex_state))
       = [''http://quotes.toscrape.com/'']
   \<and> sleeps (snd (get_page ex_world (init (3, 1)) ''http://quotes.toscrape.com/'' ex_state)) = [2]"
  by (simp add: run_defs ex_world_defs)

subsection \<open>Exporting an empty store\<close>

text \<open>
  Claim C7, as the code has it. Exporting an empty store is not an error.
  \<^verbatim>\<open>save_to_csv\<close> then returns at its guard: it logs the warning
  \<^verbatim>\<open>No data to save\<close>, opens nothing and writes no file, not even a header.
  \<^verbatim>\<open>save_to_json\<close>, when the file can be opened, writes the empty array.
\<close>

theorem empty_store_exports:
  assumes "scraped_data self = []"
  shows "save_to_csv w self csv_name st = (Inr (), logger WARNING [Lit ''No data to save''] st)
     \<and> files (snd (save_to_csv w self csv_name st)) = files st
     \<and> (open_w w json_name = Inr () \<longrightarrow>
          fst (save_to_json w self json_name st) = Inr ()
          \<and> files (snd (save_to_json w self json_name st)) json_name = Some (JsonFile (PList [])))"
  using assms by (simp add: save_to_csv_def save_to_json_def logger_def write_file_def)

theorem empty_store_exports_witness:
  "save_to_csv ex_world (init (1, 3)) ''scraped_summary.csv'' ex_state
     = (Inr (), logger WARNING [Lit ''No data to save''] ex_state)
   \<and> files (snd (save_to_csv ex_world (init (1, 3)) ''scraped_summary.csv'' ex_state)) = files ex_state
   \<and> fst (save_to_json ex_world (init (1, 3)) ''scraped_data.json'' ex_state) = Inr ()
   \<and> files (snd (save_to_json ex_world (init (1, 3)) ''scraped_data.json'' ex_state)) ''scraped_data.json''
       = Some (JsonFile (PList []))"
proof -
  have e: "scraped_data (init (1, 3)) = []" by (simp add: init_def)
  have o: "open_w ex_world ''scraped_data.json'' = Inr ()" by (simp add: ex_world_def)
  show ?thesis
    using empty_store_exports [OF e, of ex_world "''scraped_summary.csv''" ex_state "''scraped_data.json''"] o
    by (simp add: logger_def)
qed

text \<open>The statement of C7 has a header-only CSV document produced. After
  \<^verbatim>\<open>save_to_csv\<close> on the empty store there is no file of that name at all.\<close>

theorem empty_store_writes_no_csv:
  "scraped_data (init (1, 3)) = []
   \<and> files (snd (save_to_csv ex_world (init (1, 3)) ''scraped_summary.csv'' ex_state)) ''scraped_summary.csv''
       = None
   \<and> files (snd (save_to_csv ex_world (init (1, 3)) ''scraped_summary.csv'' ex_state)) ''scraped_summary.csv''
       \<noteq> Some (CsvFile [csv_header])"
  by (simp add: save_to_csv_def init_def logger_def ex_state_def)

subsection \<open>The batch\<close>

lemma fetch_logger:
  "fetch w self url (logger lv msg st) =
     (fst (fetch w self url st), logger lv msg (snd (fetch w self url st)))"
  by (simp add: fetch_def rate_limit_def uniform_def sleep_def session_get_def logger_def
        split: sum.splits)

lemma fetch_log: "log (snd (fetch w self url st)) = log st"
  by (simp add: fetch_def rate_limit_def uniform_def sleep_def session_get_def
        split: sum.splits)

lemma error_count_logger:
  "error_count (logger lv msg st) = error_count st + (if lv = ERROR then 1 else 0)"
  by (simp add: error_count_def logger_def)

lemma error_count_fetch: "error_count (snd (fetch w self url st)) = error_count st"
  by (simp add: error_count_def fetch_log)

lemma get_page_logged:
  "get_page w self url (logger INFO msg st) =
     (case fst (fetch w self url st) of
        Inl e \<Rightarrow>
          (if is_RequestException e
           then (Inr None, logger ERROR [Lit ''Error fetching '', Val (PStr url), Lit '': '', Exc e]
                             (logger INFO msg (snd (fetch w self url st))))
           else (Inl e, logger INFO msg (snd (fetch w self url st))))
      | Inr resp \<Rightarrow>
          (case html_parser w (content resp) of
             Inl e \<Rightarrow>
               (if is_RequestException e
                then (Inr None, logger ERROR [Lit ''Error fetching '', Val (PStr url), Lit '': '', Exc e]
                                  (logger INFO msg (snd (fetch w self url st))))
                else (Inl e, logger INFO msg (snd (fetch w self url st))))
           | Inr soup \<Rightarrow> (Inr (Some soup), logger INFO msg (snd (fetch w self url st)))))"
  by (simp add: get_page_def fetch_logger split: sum.splits)

lemma quotes_outcome: "outcome_ok w self Scrape_quotes_site st"
  by (cases "fst (fetch w self ''http://quotes.toscrape.com/'' st)")
     (auto simp: outcome_ok_def call_scraper_def scrape_quotes_site_def get_page_logged
        source_fails_def extraction_fails_def error_count_logger error_count_fetch Let_def
        split: sum.splits)

lemma books_outcome: "outcome_ok w self Scrape_books_site st"
  by (cases "fst (fetch w self ''http://books.toscrape.com/'' st)")
     (auto simp: outcome_ok_def call_scraper_def scrape_books_site_def get_page_logged
        source_fails_def extraction_fails_def error_count_logger error_count_fetch Let_def
        split: sum.splits)

lemma news_outcome: "outcome_ok w self Scrape_news_site st"
  by (cases "fst (fetch w self ''https://httpbin.org/html'' st)")
     (auto simp: outcome_ok_def call_scraper_def scrape_news_site_def get_page_logged
        source_fails_def extraction_fails_def error_count_logger error_count_fetch
        split: sum.splits)

lemma json_outcome: "outcome_ok w self Scrape_json_api st"
  by (cases "fst (fetch w self ''https://jsonplaceholder.typicode.com/posts'' st)")
     (auto simp: outcome_ok_def call_scraper_def scrape_json_api_def fetch_logger
        source_fails_def extraction_fails_def error_count_logger error_count_fetch Let_def
        split: sum.splits)

lemma call_scraper_outcome: "outcome_ok w self m st"
  by (cases m) (simp_all add: news_outcome quotes_outcome books_outcome json_outcome)

lemma is_Exception_all: "is_Exception e"
proof (cases e)
  case (Pair c msg)
  then show ?thesis by (cases c) (simp_all add: is_Exception_def)
qed

lemma loop_body_step:
  "fst (loop_body w self m all_data st) =
     Inr (if source_fails w self m st then all_data
          else all_data @ [projr (fst (call_scraper w self m st))])
   \<and> error_count (snd (loop_body w self m all_data st)) =
       error_count st + (if source_fails w self m st then 1 else 0)
   \<and> snd (loop_body w self m all_data st) = snd (loop_body w self m [] st)"
proof -
  obtain r st1 where c: "call_scraper w self m st = (r, st1)"
    by (cases "call_scraper w self m st")
  show ?thesis
    using call_scraper_outcome [of w self m st] c
    by (cases r)
       (auto simp: outcome_ok_def loop_body_def is_Exception_all error_count_logger
          split: if_splits)
qed

lemma scrapers_loop_count:
  "\<exists>store. fst (scrapers_loop w self ms all_data st) = Inr store
     \<and> length store + failures w self ms st = length all_data + length ms
     \<and> error_count (snd (scrapers_loop w self ms all_data st)) =
         error_count st + failures w self ms st"
proof (induction ms arbitrary: all_data st)
  case Nil
  show ?case by simp
next
  case (Cons m ms)
  obtain r st1 where b: "loop_body w self m all_data st = (r, st1)"
    by (cases "loop_body w self m all_data st")
  note s = loop_body_step [of w self m all_data st]
  from s b obtain all1 where r: "r = Inr all1"
    and l: "length all1 = length all_data + (if source_fails w self m st then 0 else 1)"
    by (auto split: if_splits)
  have e: "error_count st1 = error_count st + (if source_fails w self m st then 1 else 0)"
    using conjunct1 [OF conjunct2 [OF s]] by (simp add: b)
  have n: "snd (loop_body w self m [] st) = st1"
    using conjunct2 [OF conjunct2 [OF s]] by (simp add: b)
  from Cons.IH [of all1 st1] obtain store
    where "fst (scrapers_loop w self ms all1 st1) = Inr store"
      and "length store + failures w self ms st1 = length all1 + length ms"
      and "error_count (snd (scrapers_loop w self ms all1 st1)) = error_count st1 + failures w self ms st1"
    by blast
  with b r l e n show ?case by (auto split: if_splits)
qed

text \<open>
  Claim C1. A batch over any list of the scraper methods, and so
  \<^verbatim>\<open>run_all_scrapers\<close> over its four, returns normally whatever the sources do: no
  exception of a fetch or an extraction leaves it. When k of the n sources fail, the
  returned store (also kept in \<^verbatim>\<open>scraped_data\<close>) holds n - k records, and the log has
  grown by exactly k \<^verbatim>\<open>ERROR\<close> lines, one per failure.
\<close>

theorem batch_isolates_failures:
  "(\<exists>store. fst (scrapers_loop w self ms [] st) = Inr store
      \<and> failures w self ms st \<le> length ms
      \<and> length store = length ms - failures w self ms st
      \<and> error_count (snd (scrapers_loop w self ms [] st)) = error_count st + failures w self ms st)
   \<and> (\<exists>store self1 st1. run_all_scrapers w self st = (Inr store, self1, st1)
      \<and> scraped_data self1 = store
      \<and> failures w self scrapers st \<le> 4
      \<and> length store = 4 - failures w self scrapers st
      \<and> error_count st1 = error_count st + failures w self scrapers st)"
proof
  from scrapers_loop_count [of w self ms "[]" st]
  show "\<exists>store. fst (scrapers_loop w self ms [] st) = Inr store
      \<and> failures w self ms st \<le> length ms
      \<and> length store = length ms - failures w self ms st
      \<and> error_count (snd (scrapers_loop w self ms [] st)) = error_count st + failures w self ms st"
    by auto
next
  obtain r st1 where l: "scrapers_loop w self scrapers [] st = (r, st1)"
    by (cases "scrapers_loop w self scrapers [] st")
  have n: "length scrapers = 4" by (simp add: scrapers_def)
  from scrapers_loop_count [of w self scrapers "[]" st] l n
  obtain store where "r = Inr store"
    and "length store + failures w self scrapers st = 4"
    and "error_count st1 = error_count st + failures w self scrapers st"
    by auto
  with l show "\<exists>store self1 st1. run_all_scrapers w self st = (Inr store, self1, st1)
      \<and> scraped_data self1 = store
      \<and> failures w self scrapers st \<le> 4
      \<and> length store = 4 - failures w self scrapers st
      \<and> error_count st1 = error_count st + failures w self scrapers st"
    by (simp add: run_all_scrapers_def)
qed

lemmas scrape_defs = scrape_news_site_def scrape_quotes_site_def scrape_books_site_def
  scrape_json_api_def call_scraper_def loop_body_def run_all_scrapers_def scrapers_def

lemma ex_down_batch:
  "fst (run_all_scrapers ex_world_down (init (1, 3)) ex_state) = Inr [ex_news_record]"
  by (simp add: scrape_defs run_defs ex_world_down_def ex_net_down_def ex_world_defs
        ex_news_doc_def ex_news_record_def dom_defs title_text_def headings_of_def
        paragraphs_of_def attr_index_def is_Exception_def dict_get_def)

lemma ex_down_failures: "failures ex_world_down (init (1, 3)) scrapers ex_state = 3"
  by (simp add: source_fails_def extraction_fails_def scrape_defs run_defs ex_world_down_def
        ex_net_down_def ex_world_defs ex_news_doc_def ex_news_record_def dom_defs title_text_def
        headings_of_def paragraphs_of_def attr_index_def is_Exception_def dict_get_def)

theorem batch_isolates_failures_witness:
  "failures ex_world_down (init (1, 3)) scrapers ex_state = 3
   \<and> fst (run_all_scrapers ex_world_down (init (1, 3)) ex_state) = Inr [ex_news_record]
   \<and> scraped_data (fst (snd (run_all_scrapers ex_world_down (init (1, 3)) ex_state))) = [ex_news_record]
   \<and> error_count (snd (snd (run_all_scrapers ex_world_down (init (1, 3)) ex_state))) = 3"
proof -
  from batch_isolates_failures [of ex_world_down "init (1, 3)" scrapers ex_state]
  obtain store self1 st1
    where r: "run_all_scrapers ex_world_down (init (1, 3)) ex_state = (Inr store, self1, st1)"
      and s: "scraped_data self1 = store"
      and e: "error_count st1 = error_count ex_state + failures ex_world_down (init (1, 3)) scrapers ex_state"
    by blast
  from r ex_down_batch have "store = [ex_news_record]" by simp
  moreover have "error_count ex_state = 0"
    by (simp add: error_count_def ex_state_def)
  ultimately show ?thesis
    using r s e ex_down_failures by simp
qed

subsection \<open>The CSV summary\<close>

lemma record_items_count:
  assumes "fst (call_scraper w self m st) = Inr d" and "d \<noteq> []"
  shows "items_count d = Inr (count_cell d) \<and> count_source_ok d"
proof (cases m)
  case Scrape_news_site
  with assms scrape_news_site_record [of w self "default_url m" st d]
  show ?thesis
    by (auto simp: call_scraper_def items_count_def count_cell_def stored_count_def
          count_source_ok_def dict_has_def dict_get_def)
next
  case Scrape_quotes_site
  with assms scrape_quotes_site_record [of w self "default_url m" st d]
  show ?thesis
    by (auto simp: call_scraper_def items_count_def count_cell_def stored_count_def
          count_source_ok_def dict_has_def dict_get_def)
next
  case Scrape_books_site
  with assms scrape_books_site_record [of w self "default_url m" st d]
  show ?thesis
    by (auto simp: call_scraper_def items_count_def count_cell_def stored_count_def
          count_source_ok_def dict_has_def dict_get_def)
next
  case Scrape_json_api
  with assms scrape_json_api_record [of w self "default_url m" st d]
  show ?thesis
    by (auto simp: call_scraper_def items_count_def count_cell_def stored_count_def
          count_source_ok_def dict_has_def dict_get_def)
qed

lemma loop_body_records:
  assumes "loop_body w self m all_data st = (Inr all1, st1)"
  shows "all1 = all_data
     \<or> (\<exists>d. all1 = all_data @ [d] \<and> d \<noteq> [] \<and> fst (call_scraper w self m st) = Inr d)"
proof -
  obtain r st0 where c: "call_scraper w self m st = (r, st0)"
    by (cases "call_scraper w self m st")
  with assms show ?thesis
    by (cases r) (auto simp: loop_body_def split: if_splits)
qed

lemma scrapers_loop_records:
  assumes "fst (scrapers_loop w self ms all_data st) = Inr store"
    and "\<forall>d\<in>set all_data. items_count d = Inr (count_cell d) \<and> count_source_ok d"
  shows "\<forall>d\<in>set store. items_count d = Inr (count_cell d) \<and> count_source_ok d"
  using assms
proof (induction ms arbitrary: all_data st)
  case Nil
  then show ?case by simp
next
  case (Cons m ms)
  obtain r st1 where b: "loop_body w self m all_data st = (r, st1)"
    by (cases "loop_body w self m all_data st")
  show ?case
  proof (cases r)
    case (Inl e)
    with b Cons.prems(1) show ?thesis by simp
  next
    case (Inr all1)
    with b Cons.prems(1) have s: "fst (scrapers_loop w self ms all1 st1) = Inr store"
      by simp
    from loop_body_records [of w self m all_data st all1 st1] b Inr
    have "all1 = all_data
       \<or> (\<exists>d. all1 = all_data @ [d] \<and> d \<noteq> [] \<and> fst (call_scraper w self m st) = Inr d)"
      by simp
    with Cons.prems(2) record_items_count [of w self m st]
    have "\<forall>d\<in>set all1. items_count d = Inr (count_cell d) \<and> count_source_ok d"
      by auto
    with Cons.IH [OF s] show ?thesis by blast
  qed
qed

lemma csv_loop_rows:
  assumes "\<forall>d\<in>set ds. items_count d = Inr (count_cell d)"
  shows "csv_loop ds rows = (None, rows @ map summary_row ds)"
  using assms by (induction ds arbitrary: rows) (simp_all add: summary_row_def)

lemma run_all_scrapers_store:
  assumes "fst (run_all_scrapers w self st) = Inr store"
  shows "scraped_data (fst (snd (run_all_scrapers w self st))) = store
     \<and> fst (scrapers_loop w self scrapers [] st) = Inr store"
proof -
  obtain r st1 where l: "scrapers_loop w self scrapers [] st = (r, st1)"
    by (cases "scrapers_loop w self scrapers [] st")
  with assms show ?thesis
    by (cases r) (simp_all add: run_all_scrapers_def)
qed

text \<open>
  Claim C3, as the code has it. After a batch that returned a non-empty store, and when
  the files can be opened, \<^verbatim>\<open>save_to_csv\<close> writes the header row
  \<^verbatim>\<open>URL, Title, Type, Items Count\<close> followed by exactly one row per record, in store
  order, and \<^verbatim>\<open>save_to_json\<close> writes the same records. A record that stores a count
  (\<^verbatim>\<open>total_quotes\<close>, \<^verbatim>\<open>total_books\<close> or \<^verbatim>\<open>total_items\<close>) has that stored integer
  in its count cell; a record that stores none is a news record, and its cell is the
  number of its paragraphs, computed at the export.
\<close>

theorem csv_summary_rows:
  assumes "fst (run_all_scrapers w self st) = Inr store"
    and "store \<noteq> []"
    and "open_w w csv_name = Inr ()"
    and "open_w w json_name = Inr ()"
  shows "fst (save_to_csv w (fst (snd (run_all_scrapers w self st))) csv_name st2) = Inr ()
     \<and> files (snd (save_to_csv w (fst (snd (run_all_scrapers w self st))) csv_name st2)) csv_name =
         Some (CsvFile ([PStr ''URL'', PStr ''Title'', PStr ''Type'', PStr ''Items Count'']
                         # map summary_row store))
     \<and> files (snd (save_to_json w (fst (snd (run_all_scrapers w self st))) json_name st2)) json_name =
         Some (JsonFile (PList (map PDict store)))
     \<and> list_all count_source_ok store"
proof -
  note s = run_all_scrapers_store [OF assms(1)]
  have r: "\<forall>d\<in>set store. items_count d = Inr (count_cell d) \<and> count_source_ok d"
    using scrapers_loop_records [OF conjunct2 [OF s]] by simp
  then have c: "csv_loop store [csv_header] = (None, [csv_header] @ map summary_row store)"
    by (intro csv_loop_rows) simp
  have "list_all count_source_ok store"
    using r by (simp add: list_all_iff)
  with c assms(2,3,4) conjunct1 [OF s] show ?thesis
    by (simp add: save_to_csv_def save_to_json_def write_file_def logger_def csv_header_def)
qed

lemma ex_batch:
  "fst (run_all_scrapers ex_world (init (1, 3)) ex_state) =
     Inr [ex_news_record, ex_quotes_record, ex_books_record, ex_posts_record]"
  by (simp add: scrape_defs run_defs ex_world_defs is_Exception_def dict_get_def
        ex_news_doc_def ex_news_record_def ex_quotes_doc_def ex_quote_def ex_quotes_record_def
        ex_books_doc_def ex_book_def ex_books_record_def ex_posts_def ex_posts_record_def
        dom_defs title_text_def headings_of_def paragraphs_of_def attr_index_def
        title_elem_of_def attr_get_def rating_of_def class_get_def availability_of_def)

theorem csv_summary_rows_witness:
  "fst (run_all_scrapers ex_world (init (1, 3)) ex_state) =
     Inr [ex_news_record, ex_quotes_record, ex_books_record, ex_posts_record]
   \<and> fst (save_to_csv ex_world (fst (snd (run_all_scrapers ex_world (init (1, 3)) ex_state)))
         ''scraped_summary.csv'' ex_state) = Inr ()
   \<and> files (snd (save_to_csv ex_world (fst (snd (run_all_scrapers ex_world (init (1, 3)) ex_state)))
         ''scraped_summary.csv'' ex_state)) ''scraped_summary.csv'' =
       Some (CsvFile
         [[PStr ''URL'', PStr ''Title'', PStr ''Type'', PStr ''Items Count''],
          [PStr ''https://httpbin.org/html'', PStr ''No title found'', PStr ''news_site'', PInt 2],
          [PStr ''http://quotes.toscrape.com/'', PStr ''Quotes to Scrape'', PStr ''quotes_site'', PInt 3],
          [PStr ''http://books.toscrape.com/'', PStr ''Books to Scrape'', PStr ''books_site'', PInt 2],
          [PStr ''https://jsonplaceholder.typicode.com/posts'', PStr ''JSON API Data'',
           PStr ''json_api'', PInt 10]])
   \<and> files (snd (save_to_json ex_world (fst (snd (run_all_scrapers ex_world (init (1, 3)) ex_state)))
         ''scraped_data.json'' ex_state)) ''scraped_data.json'' =
       Some (JsonFile (PList [PDict ex_news_record, PDict ex_quotes_record, PDict ex_books_record,
                              PDict ex_posts_record]))"
proof -
  have n: "[ex_news_record, ex_quotes_record, ex_books_record, ex_posts_record] \<noteq> []" by simp
  have c: "open_w ex_world ''scraped_summary.csv'' = Inr ()" by (simp add: ex_world_def)
  have j: "open_w ex_world ''scraped_data.json'' = Inr ()" by (simp add: ex_world_def)
  have rows:
    "summary_row ex_news_record =
       [PStr ''https://httpbin.org/html'', PStr ''No title found'', PStr ''news_site'', PInt 2]"
    "summary_row ex_quotes_record =
       [PStr ''http://quotes.toscrape.com/'', PStr ''Quotes to Scrape'', PStr ''quotes_site'', PInt 3]"
    "summary_row ex_books_record =
       [PStr ''http://books.toscrape.com/'', PStr ''Books to Scrape'', PStr ''books_site'', PInt 2]"
    "summary_row ex_posts_record =
       [PStr ''https://jsonplaceholder.typicode.com/posts'', PStr ''JSON API Data'',
        PStr ''json_api'', PInt 10]"
    by (simp_all add: summary_row_def count_cell_def stored_count_def dict_get_def
          ex_news_record_def ex_quotes_record_def ex_books_record_def ex_posts_record_def)
  show ?thesis
    using csv_summary_rows [OF ex_batch n c j, of ex_state] ex_batch
    by (simp add: rows)
qed

text \<open>The statement of C3 has the header \<^verbatim>\<open>URL,Title,Type,ItemsCount\<close> and every count
  taken from the record's stored count. The batch in the world where only the news page
  is served returns one record; the summary written from it has the header cell
  \<^verbatim>\<open>Items Count\<close>, and the count 2 of its row is the number of paragraphs, for the
  record stores no count.\<close>

theorem csv_header_and_news_count:
  "fst (run_all_scrapers ex_world_down (init (1, 3)) ex_state) = Inr [ex_news_record]
   \<and> files (snd (save_to_csv ex_world_down
                   (fst (snd (run_all_scrapers ex_world_down (init (1, 3)) ex_state)))
                   ''scraped_summary.csv''
                   (snd (snd (run_all_scrapers ex_world_down (init (1, 3)) ex_state)))))
         ''scraped_summary.csv'' =
       Some (CsvFile
         [[PStr ''URL'', PStr ''Title'', PStr ''Type'', PStr ''Items Count''],
          [PStr ''https://httpbin.org/html'', PStr ''No title found'', PStr ''news_site'', PInt 2]])
   \<and> [PStr ''URL'', PStr ''Title'', PStr ''Type'', PStr ''Items Count'']
       \<noteq> [PStr ''URL'', PStr ''Title'', PStr ''Type'', PStr ''ItemsCount'']
   \<and> map_of ex_news_record ''total_quotes'' = None
   \<and> map_of ex_news_record ''total_books'' = None
   \<and> map_of ex_news_record ''total_items'' = None"
proof -
  have sd: "scraped_data (fst (snd (run_all_scrapers ex_world_down (init (1, 3)) ex_state)))
      = [ex_news_record]"
    using run_all_scrapers_store [OF ex_down_batch] by simp
  have o: "open_w ex_world_down ''scraped_summary.csv'' = Inr ()"
    by (simp add: ex_world_down_def ex_world_def)
  have i: "items_count ex_news_record = Inr (PInt 2)"
    by (simp add: items_count_def dict_has_def dict_get_def ex_news_record_def)
  have g: "dict_get ex_news_record ''url'' (PStr '''') = PStr ''https://httpbin.org/html''
      \<and> dict_get ex_news_record ''title'' (PStr '''') = PStr ''No title found''
      \<and> dict_get ex_news_record ''type'' (PStr '''') = PStr ''news_site''"
    by (simp add: dict_get_def ex_news_record_def)
  have "files (snd (save_to_csv ex_world_down
                   (fst (snd (run_all_scrapers ex_world_down (init (1, 3)) ex_state)))
                   ''scraped_summary.csv''
                   (snd (snd (run_all_scrapers ex_world_down (init (1, 3)) ex_state)))))
         ''scraped_summary.csv'' =
       Some (CsvFile
         [[PStr ''URL'', PStr ''Title'', PStr ''Type'', PStr ''Items Count''],
          [PStr ''https://httpbin.org/html'', PStr ''No title found'', PStr ''news_site'', PInt 2]])"
    by (simp add: save_to_csv_def sd o i g csv_header_def write_file_def logger_def)
  moreover have "map_of ex_news_record ''total_quotes'' = None
     \<and> map_of ex_news_record ''total_books'' = None
     \<and> map_of ex_news_record ''total_items'' = None"
    by (simp add: ex_news_record_def)
  ultimately show ?thesis
    using ex_down_batch by simp
qed

end
